theory Spec2Isabelle
  imports Complex_Main "HOL-Library.Multiset" "HOL-Library.Sublist" "HOL-Library.Log_Nat"
begin

section \<open>JavaScript values and \<open>JSON.stringify\<close>\<close>

text \<open>
  The dispatcher of \<open>src/index.ts\<close> answers every call with a text block that is the
  \<open>JSON.stringify\<close> of an object literal. The values that reach \<open>JSON.stringify\<close> are
  modelled by \<open>jsval\<close>; an object is the list of its properties in insertion order,
  and a property may hold \<open>undefined\<close>.

  Numbers: the numbers the program receives (counts, identifiers, hours, scores) are
  whole numbers and are modelled as \<open>int\<close>. The sums of the totals and the quotient and
  product of the engagement rate are rounded as the arithmetic of JavaScript's doubles
  rounds them, see \<open>round_to_double_int\<close> and \<open>round_to_double\<close> below. Strings are lists
  of characters.
\<close>

datatype jsval =
    JUndefined
  | JNull
  | JBool bool
  | JNum int
  | JStr string
  | JArr "jsval list"
  | JObj "(string \<times> jsval) list"

subsection \<open>Number to string\<close>

definition digit_char :: "nat \<Rightarrow> char" where
  "digit_char d = ''0123456789'' ! d"

fun string_of_nat :: "nat \<Rightarrow> string" where
  "string_of_nat n =
     (if n < 10 then [digit_char n]
      else string_of_nat (n div 10) @ [digit_char (n mod 10)])"

declare string_of_nat.simps [simp del]

text \<open>\<open>String(n)\<close> and \<open>`${n}`\<close> for an integral number \<open>n\<close>.\<close>

definition js_string_of_int :: "int \<Rightarrow> string" where
  "js_string_of_int i =
     (if i < 0 then CHR ''-'' # string_of_nat (nat (- i)) else string_of_nat (nat i))"

subsection \<open>QuoteJSONString\<close>

definition hex_char :: "nat \<Rightarrow> char" where
  "hex_char d = ''0123456789abcdef'' ! d"

text \<open>
  The escapes of ECMAScript's QuoteJSONString: the two-character escapes for backspace,
  tab, line feed, form feed, carriage return, the double quote and the backslash; a
  \<open>\u00XX\<close> escape for the other characters below space; every other character as it is.
\<close>

definition json_escape_char :: "char \<Rightarrow> string" where
  "json_escape_char c =
     (let n = (of_char c :: nat) in
      if n = 8 then [CHR 0x5C, CHR ''b'']
      else if n = 9 then [CHR 0x5C, CHR ''t'']
      else if n = 10 then [CHR 0x5C, CHR ''n'']
      else if n = 12 then [CHR 0x5C, CHR ''f'']
      else if n = 13 then [CHR 0x5C, CHR ''r'']
      else if n = 34 then [CHR 0x5C, CHR 0x22]
      else if n = 92 then [CHR 0x5C, CHR 0x5C]
      else if n < 32 then
        [CHR 0x5C, CHR ''u'', CHR ''0'', CHR ''0'', hex_char (n div 16), hex_char (n mod 16)]
      else [c])"

definition json_quote :: "string \<Rightarrow> string" where
  "json_quote s = CHR 0x22 # concat (map json_escape_char s) @ [CHR 0x22]"

subsection \<open>SerializeJSONProperty\<close>

fun join :: "string \<Rightarrow> string list \<Rightarrow> string" where
  "join sep [] = []"
| "join sep [x] = x"
| "join sep (x # y # ys) = x @ sep @ join sep (y # ys)"

text \<open>
  \<open>wrap_json opn cls gap ind partial\<close> is the common end of SerializeJSONObject and
  SerializeJSONArray: \<open>ind\<close> is the indentation of the enclosing level (stepback), the
  members are indented by \<open>ind @ gap\<close>, and with an empty gap everything is on one line.
\<close>

definition wrap_json :: "char \<Rightarrow> char \<Rightarrow> string \<Rightarrow> string \<Rightarrow> string list \<Rightarrow> string" where
  "wrap_json opn cls gap ind partial =
     (if partial = [] then [opn, cls]
      else if gap = [] then [opn] @ join '','' partial @ [cls]
      else [opn, CHR 0x0A] @ (ind @ gap)
             @ join ('','' @ [CHR 0x0A] @ (ind @ gap)) partial
             @ [CHR 0x0A] @ ind @ [cls])"

text \<open>
  \<open>serialize gap ind v\<close> is SerializeJSONProperty for the value \<open>v\<close>: \<open>None\<close> is the
  result \<open>undefined\<close>. A property holding \<open>undefined\<close> is left out of its object; an
  array element holding \<open>undefined\<close> is written \<open>null\<close>.
\<close>

fun serialize :: "string \<Rightarrow> string \<Rightarrow> jsval \<Rightarrow> string option" where
  "serialize gap ind JUndefined = None"
| "serialize gap ind JNull = Some ''null''"
| "serialize gap ind (JBool b) = Some (if b then ''true'' else ''false'')"
| "serialize gap ind (JNum n) = Some (js_string_of_int n)"
| "serialize gap ind (JStr s) = Some (json_quote s)"
| "serialize gap ind (JArr vs) =
     Some (wrap_json CHR ''['' CHR '']'' gap ind
       (map (\<lambda>v. case serialize gap (ind @ gap) v of None \<Rightarrow> ''null'' | Some s \<Rightarrow> s) vs))"
| "serialize gap ind (JObj kvs) =
     Some (wrap_json CHR ''{'' CHR ''}'' gap ind
       (concat (map (\<lambda>kv. case serialize gap (ind @ gap) (snd kv) of
                        None \<Rightarrow> []
                      | Some s \<Rightarrow> [json_quote (fst kv) @ '':'' @ (if gap = [] then [] else '' '') @ s])
                 kvs)))"

text \<open>\<open>JSON.stringify(v)\<close> and \<open>JSON.stringify(v, null, 2)\<close>.\<close>

definition JSON_stringify :: "jsval \<Rightarrow> string option" where
  "JSON_stringify v = serialize [] [] v"

definition JSON_stringify2 :: "jsval \<Rightarrow> string option" where
  "JSON_stringify2 v = serialize ''  '' [] v"

section \<open>Truthiness\<close>

text \<open>
  \<open>a || b\<close> yields \<open>a\<close> when \<open>a\<close> is truthy and \<open>b\<close> otherwise; \<open>a && b\<close> yields \<open>b\<close> when
  \<open>a\<close> is truthy and \<open>a\<close> otherwise. An optional field is an \<open>option\<close>, \<open>None\<close> for
  \<open>undefined\<close>. A number is truthy when it is not zero, a string when it is not empty.
\<close>

definition truthy_num :: "int \<Rightarrow> bool" where
  "truthy_num n = (n \<noteq> 0)"

definition truthy_str :: "string \<Rightarrow> bool" where
  "truthy_str s = (s \<noteq> [])"

definition truthy_opt :: "('a \<Rightarrow> bool) \<Rightarrow> 'a option \<Rightarrow> bool" where
  "truthy_opt t a = (case a of None \<Rightarrow> False | Some x \<Rightarrow> t x)"

text \<open>\<open>a || b\<close> where \<open>b\<close> may be \<open>undefined\<close> too.\<close>

definition js_or :: "('a \<Rightarrow> bool) \<Rightarrow> 'a option \<Rightarrow> 'a option \<Rightarrow> 'a option" where
  "js_or t a b = (if truthy_opt t a then a else b)"

text \<open>\<open>a || d\<close> where \<open>d\<close> is a literal.\<close>

definition js_or_lit :: "('a \<Rightarrow> bool) \<Rightarrow> 'a option \<Rightarrow> 'a \<Rightarrow> 'a" where
  "js_or_lit t a d = (case a of None \<Rightarrow> d | Some x \<Rightarrow> if t x then x else d)"

text \<open>\<open>a && lit\<close> for an optional string \<open>a\<close> and a string literal.\<close>

definition js_and_lit :: "string option \<Rightarrow> string \<Rightarrow> string option" where
  "js_and_lit a lit = (if truthy_opt truthy_str a then Some lit else a)"

text \<open>\<open>xs.filter(Boolean)\<close> on an array of strings and \<open>undefined\<close>s.\<close>

definition filter_Boolean :: "string option list \<Rightarrow> string list" where
  "filter_Boolean xs = concat (map (\<lambda>a. case a of None \<Rightarrow> [] | Some s \<Rightarrow> if truthy_str s then [s] else []) xs)"

definition opt_str :: "string option \<Rightarrow> jsval" where
  "opt_str a = (case a of None \<Rightarrow> JUndefined | Some s \<Rightarrow> JStr s)"

section \<open>The entities of \<open>client.ts\<close>\<close>

record metricool_config =
  token :: string
  userId :: string

record schedule_post_params =
  p_brandId :: string
  p_text :: string
  p_dateTime :: string
  p_timezone :: "string option"
  p_network :: "string option"
  p_imageUrl :: "string option"

record analytics_params =
  a_brandId :: string
  a_startDate :: "string option"
  a_endDate :: "string option"

record publication_date =
  pd_dateTime :: string
  pd_timezone :: string

record provider =
  prov_network :: string
  prov_status :: string
  prov_detailedStatus :: string
  prov_publicUrl :: "string option"

record scheduled_post =
  sp_id :: int
  sp_uuid :: string
  sp_text :: string
  sp_publicationDate :: publication_date
  sp_providers :: "provider list"
  sp_draft :: bool

record linkedin_post =
  lp_id :: "string option"
  lp_postId :: "string option"
  lp_text :: "string option"
  lp_content :: "string option"
  lp_publishedAt :: "string option"
  lp_date :: "string option"
  lp_impressions :: "int option"
  lp_engagements :: "int option"
  lp_engagement :: "int option"
  lp_clicks :: "int option"
  lp_likes :: "int option"
  lp_comments :: "int option"
  lp_shares :: "int option"
  lp_reactions :: "int option"

record brand =
  b_id :: int
  b_label :: string
  b_twitter :: "string option"
  b_facebook :: "string option"
  b_instagram :: "string option"
  b_linkedinCompany :: "string option"
  b_youtube :: "string option"
  b_tiktok :: "string option"
  b_threads :: "string option"
  b_bluesky :: "string option"

record best_time_slot =
  dayOfWeek :: int
  hour :: int
  score :: int

section \<open>The HTTP client\<close>

text \<open>
  \<open>fetch\<close> is the platform's: the reply of the upstream service to a request is a
  parameter of the model. A reply is a network failure (\<open>fetch\<close> rejects with an
  \<open>Error\<close>), or a response with its status, its body as text, and its body as parsed by
  \<open>response.json()\<close>: \<open>Inl\<close> the message of the \<open>SyntaxError\<close>, or \<open>Inr\<close> the value, typed as
  the cast \<open>as Promise<T>\<close> of the call site says. The query string built by
  \<open>URLSearchParams\<close> is kept as its list of pairs.
\<close>

text \<open>The envelope \<open>{ data: T }\<close> of the scheduler endpoints.\<close>

record 'a envelope =
  data :: 'a

record http_request =
  req_url :: string
  req_query :: "(string \<times> string) list"
  req_method :: "string option"
  req_headers :: "(string \<times> string) list"
  req_body :: "string option"

datatype 'a fetch_result =
    NetworkFailure string
  | Response nat string "string + 'a"

text \<open>What a \<open>throw\<close> carries: an \<open>Error\<close> with its message, or any other value.\<close>

datatype thrown = JsError string | NonError

definition baseUrl :: string where
  "baseUrl = ''https://app.metricool.com/api''"

definition response_ok :: "nat \<Rightarrow> bool" where
  "response_ok st = (200 \<le> st \<and> st \<le> 299)"

definition api_error_message :: "nat \<Rightarrow> string \<Rightarrow> string" where
  "api_error_message st errorText =
     ''Metricool API error ('' @ string_of_nat st @ ''): '' @ errorText"

text \<open>
  \<open>MetricoolClient.request\<close>. The result is the request that was sent, and the value
  returned or the error thrown.
\<close>

definition request ::
  "(http_request \<Rightarrow> 'a fetch_result) \<Rightarrow> metricool_config \<Rightarrow> string \<Rightarrow> (string \<times> string) list
     \<Rightarrow> string option \<Rightarrow> string option \<Rightarrow> http_request \<times> (thrown + 'a)" where
  "request fetch cfg endpoint query meth body =
     (let req = \<lparr> req_url = baseUrl @ endpoint, req_query = query, req_method = meth,
                  req_headers = [(''X-Mc-Auth'', token cfg), (''Content-Type'', ''application/json'')],
                  req_body = body \<rparr>
      in (req,
          case fetch req of
            NetworkFailure m \<Rightarrow> Inl (JsError m)
          | Response st errorText parsed \<Rightarrow>
              if \<not> response_ok st then Inl (JsError (api_error_message st errorText))
              else (case parsed of Inl m \<Rightarrow> Inl (JsError m) | Inr v \<Rightarrow> Inr v)))"

definition map_result :: "('a \<Rightarrow> 'b) \<Rightarrow> http_request \<times> (thrown + 'a) \<Rightarrow> http_request \<times> (thrown + 'b)" where
  "map_result f r = (fst r, case snd r of Inl e \<Rightarrow> Inl e | Inr v \<Rightarrow> Inr (f v))"

definition getBrands ::
  "(http_request \<Rightarrow> brand list fetch_result) \<Rightarrow> metricool_config \<Rightarrow> http_request \<times> (thrown + brand list)" where
  "getBrands fetch cfg = request fetch cfg (''/admin/simpleProfiles?userId='' @ userId cfg) [] None None"

definition schedulePost_network :: "schedule_post_params \<Rightarrow> string" where
  "schedulePost_network params = js_or_lit truthy_str (p_network params) ''linkedin''"

definition schedulePost_body :: "schedule_post_params \<Rightarrow> (string \<times> jsval) list" where
  "schedulePost_body params =
     (let network = schedulePost_network params;
          body =
            [(''text'', JStr (p_text params)),
             (''publicationDate'',
                JObj [(''dateTime'', JStr (p_dateTime params)),
                      (''timezone'', JStr (js_or_lit truthy_str (p_timezone params) ''America/Costa_Rica''))]),
             (''providers'', JArr [JObj [(''network'', JStr network)]]),
             (''autoPublish'', JBool True),
             (''linkedinData'',
                if network = ''linkedin''
                then JObj [(''previewIncluded'', JBool True), (''type'', JStr ''POST'')]
                else JUndefined)]
      in if truthy_opt truthy_str (p_imageUrl params)
         then body @ [(''media'', JArr [opt_str (p_imageUrl params)])]
         else body)"

definition schedulePost ::
  "(http_request \<Rightarrow> scheduled_post envelope fetch_result) \<Rightarrow> metricool_config \<Rightarrow> schedule_post_params
     \<Rightarrow> http_request \<times> (thrown + scheduled_post)" where
  "schedulePost fetch cfg params =
     map_result (\<lambda>response. data response)
       (request fetch cfg ''/v2/scheduler/posts?''
          [(''userId'', userId cfg), (''blogId'', p_brandId params)]
          (Some ''POST'') (JSON_stringify (JObj (schedulePost_body params))))"

text \<open>
  The clock is the platform's too: \<open>now\<close> is \<open>new Date().getTime()\<close> in milliseconds and
  \<open>toISOString\<close> renders a time in milliseconds.
\<close>

record platform =
  now :: int
  toISOString :: "int \<Rightarrow> string"

definition getScheduledPosts ::
  "(http_request \<Rightarrow> scheduled_post list option envelope fetch_result) \<Rightarrow> metricool_config \<Rightarrow> platform
     \<Rightarrow> string \<Rightarrow> http_request \<times> (thrown + scheduled_post list)" where
  "getScheduledPosts fetch cfg plat brandId =
     (let sixtyDaysFromNow = now plat + 60 * 24 * 60 * 60 * 1000;
          formatDateTime = (\<lambda>d. take 19 (toISOString plat d))
      in map_result (\<lambda>response. case data response of None \<Rightarrow> [] | Some ps \<Rightarrow> ps)
           (request fetch cfg ''/v2/scheduler/posts?''
              [(''userId'', userId cfg), (''blogId'', brandId),
               (''start'', formatDateTime (now plat)), (''end'', formatDateTime sixtyDaysFromNow),
               (''timezone'', ''America/Costa_Rica'')]
              None None))"

definition strip_hyphens :: "string \<Rightarrow> string" where
  "strip_hyphens s = filter (\<lambda>c. c \<noteq> CHR ''-'') s"

definition getAnalytics ::
  "(http_request \<Rightarrow> linkedin_post list fetch_result) \<Rightarrow> metricool_config \<Rightarrow> platform \<Rightarrow> analytics_params
     \<Rightarrow> http_request \<times> (thrown + linkedin_post list)" where
  "getAnalytics fetch cfg plat params =
     (let thirtyDaysAgo = now plat - 30 * 24 * 60 * 60 * 1000;
          formatDate = (\<lambda>d. strip_hyphens (take 10 (toISOString plat d)));
          startDate = (case a_startDate params of
                         Some s \<Rightarrow> if truthy_str s then strip_hyphens s else formatDate thirtyDaysAgo
                       | None \<Rightarrow> formatDate thirtyDaysAgo);
          endDate = (case a_endDate params of
                       Some s \<Rightarrow> if truthy_str s then strip_hyphens s else formatDate (now plat)
                     | None \<Rightarrow> formatDate (now plat))
      in request fetch cfg ''/stats/linkedin/posts?''
           [(''userId'', userId cfg), (''blogId'', a_brandId params),
            (''start'', startDate), (''end'', endDate)]
           None None)"

definition getBestTime ::
  "(http_request \<Rightarrow> best_time_slot list option envelope fetch_result) \<Rightarrow> metricool_config \<Rightarrow> string
     \<Rightarrow> http_request \<times> (thrown + best_time_slot list)" where
  "getBestTime fetch cfg brandId =
     map_result (\<lambda>response. case data response of None \<Rightarrow> [] | Some ss \<Rightarrow> ss)
       (request fetch cfg ''/v2/scheduler/besttimes/linkedin?''
          [(''userId'', userId cfg), (''blogId'', brandId)] None None)"

definition deleteScheduledPost ::
  "(http_request \<Rightarrow> unit fetch_result) \<Rightarrow> metricool_config \<Rightarrow> string \<Rightarrow> http_request \<times> (thrown + unit)" where
  "deleteScheduledPost fetch cfg postId =
     request fetch cfg (''/scheduler/post/'' @ postId @ ''?userId='' @ userId cfg) [] (Some ''DELETE'') None"

section \<open>\<open>Array.prototype.sort\<close>\<close>

text \<open>
  ECMAScript requires \<open>sort\<close> to be stable; the engine's algorithm is not part of the
  program. It is modelled as a stable insertion sort driven by the comparator, which is
  called as \<open>cmp a b\<close> and answers a negative number when \<open>a\<close> goes first.
\<close>

fun js_insert :: "('a \<Rightarrow> 'a \<Rightarrow> int) \<Rightarrow> 'a \<Rightarrow> 'a list \<Rightarrow> 'a list" where
  "js_insert cmp x [] = [x]"
| "js_insert cmp x (y # ys) = (if cmp x y \<le> 0 then x # y # ys else y # js_insert cmp x ys)"

definition js_sort :: "('a \<Rightarrow> 'a \<Rightarrow> int) \<Rightarrow> 'a list \<Rightarrow> 'a list" where
  "js_sort cmp xs = foldr (js_insert cmp) xs []"

text \<open>\<open>xs.slice(0, n)\<close> and \<open>s.substring(0, n)\<close>.\<close>

definition slice0 :: "nat \<Rightarrow> 'a list \<Rightarrow> 'a list" where
  "slice0 n xs = take n xs"

text \<open>\<open>s.substring(0, n) + (s.length > n ? "..." : "")\<close>\<close>

definition truncate_text :: "nat \<Rightarrow> string \<Rightarrow> string" where
  "truncate_text n s = slice0 n s @ (if length s > n then ''...'' else [])"

section \<open>The dispatcher of \<open>index.ts\<close>\<close>

definition TOOLS :: "string list" where
  "TOOLS = [''metricool_get_brands'', ''metricool_schedule_post'', ''metricool_get_scheduled_posts'',
            ''metricool_get_analytics'', ''metricool_get_best_time'']"

text \<open>
  The arguments of a call, read as \<open>typedArgs.brandId!\<close> and so on. The fields an input
  schema marks as required are taken to be present; the others are optional.
\<close>

record tool_args =
  arg_brandId :: string
  arg_text :: string
  arg_dateTime :: string
  arg_timezone :: "string option"
  arg_imageUrl :: "string option"
  arg_startDate :: "string option"
  arg_endDate :: "string option"

text \<open>
  The answer of a call: the text of its single content block and the \<open>isError\<close> flag,
  \<open>None\<close> where the answer has no such property.
\<close>

record tool_result =
  content_text :: "string option"
  isError :: "bool option"

definition ok_result :: "jsval \<Rightarrow> tool_result" where
  "ok_result v = \<lparr> content_text = JSON_stringify2 v, isError = None \<rparr>"

subsection \<open>metricool_get_brands\<close>

definition brand_networks :: "brand \<Rightarrow> string list" where
  "brand_networks b =
     filter_Boolean
       [js_and_lit (b_linkedinCompany b) ''linkedin'',
        js_and_lit (b_twitter b) ''twitter'',
        js_and_lit (b_facebook b) ''facebook'',
        js_and_lit (b_instagram b) ''instagram'',
        js_and_lit (b_youtube b) ''youtube'',
        js_and_lit (b_tiktok b) ''tiktok'',
        js_and_lit (b_threads b) ''threads'',
        js_and_lit (b_bluesky b) ''bluesky'']"

definition formattedBrand :: "brand \<Rightarrow> jsval" where
  "formattedBrand b =
     JObj [(''id'', JStr (js_string_of_int (b_id b))),
           (''name'', JStr (b_label b)),
           (''networks'', JArr (map JStr (brand_networks b)))]"

definition brands_payload :: "brand list \<Rightarrow> jsval" where
  "brands_payload brands =
     JObj [(''success'', JBool True), (''brands'', JArr (map formattedBrand brands))]"

subsection \<open>metricool_schedule_post\<close>

definition schedule_payload :: "scheduled_post \<Rightarrow> jsval" where
  "schedule_payload result =
     JObj [(''success'', JBool True),
           (''message'', JStr ''Post scheduled successfully''),
           (''postId'', JNum (sp_id result)),
           (''uuid'', JStr (sp_uuid result)),
           (''scheduledDate'', JStr (pd_dateTime (sp_publicationDate result))),
           (''networks'', JArr (map (\<lambda>p. JStr (prov_network p)) (sp_providers result)))]"

subsection \<open>metricool_get_scheduled_posts\<close>

definition has_pending :: "scheduled_post \<Rightarrow> bool" where
  "has_pending p = list_ex (\<lambda>prov. prov_status prov = ''PENDING'') (sp_providers p)"

definition pendingPosts :: "scheduled_post list \<Rightarrow> scheduled_post list" where
  "pendingPosts posts = filter has_pending posts"

definition first_status :: "scheduled_post \<Rightarrow> string" where
  "first_status p =
     (case sp_providers p of
        [] \<Rightarrow> ''Unknown''
      | prov # _ \<Rightarrow> if truthy_str (prov_detailedStatus prov) then prov_detailedStatus prov else ''Unknown'')"

definition pending_view :: "scheduled_post \<Rightarrow> jsval" where
  "pending_view p =
     JObj [(''id'', JNum (sp_id p)),
           (''uuid'', JStr (sp_uuid p)),
           (''text'', JStr (truncate_text 100 (sp_text p))),
           (''scheduledDate'', JStr (pd_dateTime (sp_publicationDate p))),
           (''timezone'', JStr (pd_timezone (sp_publicationDate p))),
           (''networks'', JArr (map (\<lambda>prov. JStr (prov_network prov)) (sp_providers p))),
           (''status'', JStr (first_status p))]"

definition scheduled_payload :: "scheduled_post list \<Rightarrow> jsval" where
  "scheduled_payload posts =
     JObj [(''success'', JBool True),
           (''count'', JNum (int (length (pendingPosts posts)))),
           (''posts'', JArr (map pending_view (pendingPosts posts)))]"

subsection \<open>metricool_get_analytics\<close>

record Totals =
  impressions :: int
  engagements :: int
  clicks :: int
  likes :: int
  comments :: int
  shares :: int

text \<open>\<open>p.engagements || p.engagement || 0\<close>, used by the totals, the sort and the view.\<close>

definition engagement_value :: "linkedin_post \<Rightarrow> int" where
  "engagement_value p = js_or_lit truthy_num (js_or truthy_num (lp_engagements p) (lp_engagement p)) 0"

definition likes_value :: "linkedin_post \<Rightarrow> int" where
  "likes_value p = js_or_lit truthy_num (js_or truthy_num (lp_likes p) (lp_reactions p)) 0"

text \<open>
  \<open>a + b\<close> on whole numbers. A double holds every whole number up to \<open>2^53\<close> in
  magnitude; a larger one is rounded to 53 significant bits, to the nearest such number
  and on a tie to the one with the even last bit. (From \<open>2^1024\<close> on the double is an
  infinity, which the whole numbers of this model do not have.)
\<close>

definition round_to_double_int :: "int \<Rightarrow> int" where
  "round_to_double_int n =
     (if \<bar>n\<bar> \<le> 2 ^ 53 then n
      else
        (let u = 2 ^ nat (bitlen \<bar>n\<bar> - 53);
             q = \<bar>n\<bar> div u;
             r = \<bar>n\<bar> mod u;
             m = (if 2 * r < u then q else if u < 2 * r then q + 1 else if even q then q else q + 1)
         in sgn n * (m * u)))"

definition js_add :: "int \<Rightarrow> int \<Rightarrow> int" where
  "js_add a b = round_to_double_int (a + b)"

definition add_post :: "Totals \<Rightarrow> linkedin_post \<Rightarrow> Totals" where
  "add_post acc p =
     \<lparr> impressions = js_add (impressions acc) (js_or_lit truthy_num (lp_impressions p) 0),
       engagements = js_add (engagements acc) (engagement_value p),
       clicks = js_add (clicks acc) (js_or_lit truthy_num (lp_clicks p) 0),
       likes = js_add (likes acc) (likes_value p),
       comments = js_add (comments acc) (js_or_lit truthy_num (lp_comments p) 0),
       shares = js_add (shares acc) (js_or_lit truthy_num (lp_shares p) 0) \<rparr>"

definition zero_totals :: Totals where
  "zero_totals = \<lparr> impressions = 0, engagements = 0, clicks = 0, likes = 0, comments = 0, shares = 0 \<rparr>"

text \<open>\<open>posts.reduce(..., {impressions: 0, ...})\<close>: a fold from the left.\<close>

definition totals :: "linkedin_post list \<Rightarrow> Totals" where
  "totals posts = foldl add_post zero_totals posts"

text \<open>
  The value of a double: a rational, an infinity or \<open>NaN\<close>.
\<close>

datatype jsnum = Finite rat | PosInfinity | NegInfinity | NaN

text \<open>
  The rounding of an exact result to a double (IEEE 754 binary64, to nearest, ties to
  even). \<open>exponent_of x\<close> is the \<open>e\<close> with \<open>2^e \<le> |x| < 2^(e+1)\<close>; a double has 53
  significant bits, so the doubles around \<open>x\<close> are the multiples of \<open>2^(e-52)\<close>, and
  below \<open>2^-1022\<close> (the subnormal doubles) of \<open>2^-1074\<close>; a result that rounds to
  \<open>2^1024\<close> or more is an infinity.
\<close>

definition pow2 :: "int \<Rightarrow> rat" where
  "pow2 i = (if 0 \<le> i then 2 ^ nat i else 1 / 2 ^ nat (- i))"

definition exponent_of :: "rat \<Rightarrow> int" where
  "exponent_of x =
     (let d = bitlen (fst (quotient_of \<bar>x\<bar>)) - bitlen (snd (quotient_of \<bar>x\<bar>))
      in if pow2 d \<le> \<bar>x\<bar> then d else d - 1)"

definition round_to_double :: "rat \<Rightarrow> jsnum" where
  "round_to_double x =
     (if x = 0 then Finite 0
      else
        (let e = max (exponent_of x) (- 1022);
             u = pow2 (e - 52);
             q = \<lfloor>\<bar>x\<bar> / u\<rfloor>;
             r = \<bar>x\<bar> / u - of_int q;
             m = (if r < 1 / 2 then q else if 1 / 2 < r then q + 1 else if even q then q else q + 1);
             y = of_int m * u
         in if pow2 1024 \<le> y then (if x < 0 then NegInfinity else PosInfinity)
            else Finite (if x < 0 then - y else y)))"

text \<open>
  \<open>a / b\<close> on whole numbers, which in JavaScript never throws: a zero divisor gives
  \<open>NaN\<close> or an infinity, any other the quotient rounded to a double.
\<close>

definition js_div :: "int \<Rightarrow> int \<Rightarrow> jsnum" where
  "js_div a b =
     (if b = 0 then (if a = 0 then NaN else if a > 0 then PosInfinity else NegInfinity)
      else round_to_double (of_int a / of_int b))"

text \<open>\<open>x * k\<close> for a double \<open>x\<close> and a whole number \<open>k\<close>: the product rounded to a double.\<close>

definition js_times :: "jsnum \<Rightarrow> int \<Rightarrow> jsnum" where
  "js_times x k =
     (case x of
        Finite q \<Rightarrow> round_to_double (q * of_int k)
      | NaN \<Rightarrow> NaN
      | PosInfinity \<Rightarrow> (if k = 0 then NaN else if 0 < k then PosInfinity else NegInfinity)
      | NegInfinity \<Rightarrow> (if k = 0 then NaN else if 0 < k then NegInfinity else PosInfinity))"

text \<open>
  \<open>x.toFixed(2)\<close>: the sign, then the integer \<open>n\<close> for which \<open>n / 100\<close> is nearest to
  \<open>|x|\<close>, the larger one on a tie, written with two decimals. (From \<open>10^21\<close> on
  \<open>toFixed\<close> switches to the exponent notation, far beyond the counts modelled here.)
\<close>

definition hundredths :: "rat \<Rightarrow> nat" where
  "hundredths x = nat \<lfloor>\<bar>x\<bar> * 100 + 1 / 2\<rfloor>"

definition toFixed2 :: "jsnum \<Rightarrow> string" where
  "toFixed2 x =
     (case x of
        NaN \<Rightarrow> ''NaN''
      | PosInfinity \<Rightarrow> ''Infinity''
      | NegInfinity \<Rightarrow> ''-Infinity''
      | Finite q \<Rightarrow>
          (let n = hundredths q
           in (if q < 0 then ''-'' else []) @ string_of_nat (n div 100) @ ''.''
                @ [digit_char (n mod 100 div 10), digit_char (n mod 10)]))"

definition engagementRate :: "Totals \<Rightarrow> string" where
  "engagementRate t =
     (if impressions t > 0
      then toFixed2 (js_times (js_div (engagements t) (impressions t)) 100)
      else ''0.00'')"

definition by_engagement_desc :: "linkedin_post \<Rightarrow> linkedin_post \<Rightarrow> int" where
  "by_engagement_desc a b = engagement_value b - engagement_value a"

definition topPosts :: "linkedin_post list \<Rightarrow> linkedin_post list" where
  "topPosts posts = slice0 5 (js_sort by_engagement_desc posts)"

definition top_post_view :: "linkedin_post \<Rightarrow> jsval" where
  "top_post_view p =
     (let text = js_or_lit truthy_str (js_or truthy_str (lp_text p) (lp_content p)) []
      in JObj [(''id'', opt_str (js_or truthy_str (lp_id p) (lp_postId p))),
               (''text'', JStr (truncate_text 80 text)),
               (''publishedAt'', opt_str (js_or truthy_str (lp_publishedAt p) (lp_date p))),
               (''impressions'', JNum (js_or_lit truthy_num (lp_impressions p) 0)),
               (''engagements'', JNum (engagement_value p))])"

definition analytics_summary :: "Totals \<Rightarrow> jsval" where
  "analytics_summary t =
     JObj [(''impressions'', JNum (impressions t)),
           (''engagements'', JNum (engagements t)),
           (''engagementRate'', JStr (engagementRate t @ ''%'')),
           (''clicks'', JNum (clicks t)),
           (''likes'', JNum (likes t)),
           (''comments'', JNum (comments t)),
           (''shares'', JNum (shares t))]"

definition analytics_payload :: "linkedin_post list \<Rightarrow> jsval" where
  "analytics_payload posts =
     JObj [(''success'', JBool True),
           (''summary'', analytics_summary (totals posts)),
           (''postCount'', JNum (int (length posts))),
           (''topPosts'', JArr (map top_post_view (topPosts posts)))]"

subsection \<open>metricool_get_best_time\<close>

definition DAYS_OF_WEEK :: "string list" where
  "DAYS_OF_WEEK = [''Sunday'', ''Monday'', ''Tuesday'', ''Wednesday'', ''Thursday'', ''Friday'', ''Saturday'']"

text \<open>\<open>xs[i]\<close> for a number \<open>i\<close>: \<open>undefined\<close> outside the array.\<close>

definition js_index :: "'a list \<Rightarrow> int \<Rightarrow> 'a option" where
  "js_index xs i = (if 0 \<le> i \<and> i < int (length xs) then Some (xs ! nat i) else None)"

definition formatHour :: "int \<Rightarrow> string" where
  "formatHour h =
     (let suffix = (if h \<ge> 12 then ''PM'' else ''AM'');
          displayHour = (if h = 0 then 12 else if h > 12 then h - 12 else h)
      in js_string_of_int displayHour @ '':00 '' @ suffix)"

definition by_score_desc :: "best_time_slot \<Rightarrow> best_time_slot \<Rightarrow> int" where
  "by_score_desc a b = score b - score a"

definition sortedSlots :: "best_time_slot list \<Rightarrow> best_time_slot list" where
  "sortedSlots slots = js_sort by_score_desc slots"

definition topSlots :: "best_time_slot list \<Rightarrow> best_time_slot list" where
  "topSlots slots = slice0 5 (sortedSlots slots)"

definition slot_view :: "best_time_slot \<Rightarrow> jsval" where
  "slot_view s =
     JObj [(''day'', opt_str (js_index DAYS_OF_WEEK (dayOfWeek s))),
           (''time'', JStr (formatHour (hour s))),
           (''score'', JNum (score s))]"

definition best_time_payload :: "best_time_slot list \<Rightarrow> jsval" where
  "best_time_payload slots =
     JObj [(''success'', JBool True),
           (''recommendation'',
              JStr ''Based on your audience engagement patterns, here are the best times to post:''),
           (''topSlots'', JArr (map slot_view (topSlots slots)))]"

subsection \<open>The handler of a tool call\<close>

text \<open>The replies of the upstream service, one per endpoint, typed as the client casts them.\<close>

record upstream =
  up_brands :: "http_request \<Rightarrow> brand list fetch_result"
  up_schedule :: "http_request \<Rightarrow> scheduled_post envelope fetch_result"
  up_scheduled :: "http_request \<Rightarrow> scheduled_post list option envelope fetch_result"
  up_analytics :: "http_request \<Rightarrow> linkedin_post list fetch_result"
  up_best_time :: "http_request \<Rightarrow> best_time_slot list option envelope fetch_result"

text \<open>The \<open>catch\<close> block.\<close>

definition catch_result :: "thrown \<Rightarrow> tool_result" where
  "catch_result e =
     (let message = (case e of JsError m \<Rightarrow> m | NonError \<Rightarrow> ''Unknown error'')
      in \<lparr> content_text = JSON_stringify (JObj [(''success'', JBool False), (''error'', JStr message)]),
           isError = Some True \<rparr>)"

text \<open>The \<open>default\<close> case.\<close>

definition unknown_tool_result :: "string \<Rightarrow> tool_result" where
  "unknown_tool_result name =
     \<lparr> content_text = JSON_stringify (JObj [(''error'', JStr (''Unknown tool: '' @ name))]),
       isError = Some True \<rparr>"

text \<open>
  One client call inside the \<open>try\<close> block, followed by the reshaping of its result: the
  requests sent, and the answer.
\<close>

definition after_call :: "('a \<Rightarrow> jsval) \<Rightarrow> http_request \<times> (thrown + 'a) \<Rightarrow> http_request list \<times> tool_result" where
  "after_call present r =
     ([fst r], case snd r of Inl e \<Rightarrow> catch_result e | Inr v \<Rightarrow> ok_result (present v))"

definition call_tool ::
  "upstream \<Rightarrow> metricool_config \<Rightarrow> platform \<Rightarrow> string \<Rightarrow> tool_args \<Rightarrow> http_request list \<times> tool_result" where
  "call_tool up cfg plat name args =
     (if name = ''metricool_get_brands'' then
        after_call brands_payload (getBrands (up_brands up) cfg)
      else if name = ''metricool_schedule_post'' then
        after_call schedule_payload
          (schedulePost (up_schedule up) cfg
             \<lparr> p_brandId = arg_brandId args, p_text = arg_text args, p_dateTime = arg_dateTime args,
               p_timezone = Some (js_or_lit truthy_str (arg_timezone args) ''America/Costa_Rica''),
               p_network = None, p_imageUrl = arg_imageUrl args \<rparr>)
      else if name = ''metricool_get_scheduled_posts'' then
        after_call scheduled_payload (getScheduledPosts (up_scheduled up) cfg plat (arg_brandId args))
      else if name = ''metricool_get_analytics'' then
        after_call analytics_payload
          (getAnalytics (up_analytics up) cfg plat
             \<lparr> a_brandId = arg_brandId args, a_startDate = arg_startDate args, a_endDate = arg_endDate args \<rparr>)
      else if name = ''metricool_get_best_time'' then
        after_call best_time_payload (getBestTime (up_best_time up) cfg (arg_brandId args))
      else ([], unknown_tool_result name))"

section \<open>The aggregation as the specification words it\<close>

text \<open>A missing count is zero.\<close>

definition field_or_zero :: "int option \<Rightarrow> int" where
  "field_or_zero a = (case a of None \<Rightarrow> 0 | Some n \<Rightarrow> n)"

text \<open>
  The specification's fallback: the first field, and the alternate field only when the
  first is absent.
\<close>

definition spec_fallback :: "int option \<Rightarrow> int option \<Rightarrow> int" where
  "spec_fallback a b = (case a of Some x \<Rightarrow> x | None \<Rightarrow> field_or_zero b)"

definition spec_totals :: "linkedin_post list \<Rightarrow> Totals" where
  "spec_totals posts =
     \<lparr> impressions = (\<Sum>p\<leftarrow>posts. field_or_zero (lp_impressions p)),
       engagements = (\<Sum>p\<leftarrow>posts. spec_fallback (lp_engagements p) (lp_engagement p)),
       clicks = (\<Sum>p\<leftarrow>posts. field_or_zero (lp_clicks p)),
       likes = (\<Sum>p\<leftarrow>posts. spec_fallback (lp_likes p) (lp_reactions p)),
       comments = (\<Sum>p\<leftarrow>posts. field_or_zero (lp_comments p)),
       shares = (\<Sum>p\<leftarrow>posts. field_or_zero (lp_shares p)) \<rparr>"

text \<open>
  The fallback of the code: the first field when it is present and not zero, else the
  alternate field.
\<close>

definition falsy_fallback :: "int option \<Rightarrow> int option \<Rightarrow> int" where
  "falsy_fallback a b =
     (case a of Some x \<Rightarrow> if x = 0 then field_or_zero b else x | None \<Rightarrow> field_or_zero b)"

text \<open>
  The rate as the specification words it: \<open>"0.00"\<close> when the impressions are zero, the
  formatted quotient otherwise.
\<close>

definition spec_engagementRate :: "Totals \<Rightarrow> string" where
  "spec_engagementRate t =
     (if impressions t = 0 then ''0.00''
      else toFixed2 (js_times (js_div (engagements t) (impressions t)) 100))"

section \<open>The networks of a brand as the specification words them\<close>

text \<open>The handle fields in the order the dispatcher reads them, with the name each stands for.\<close>

definition network_handles :: "brand \<Rightarrow> (string \<times> string option) list" where
  "network_handles b =
     [(''linkedin'', b_linkedinCompany b), (''twitter'', b_twitter b), (''facebook'', b_facebook b),
      (''instagram'', b_instagram b), (''youtube'', b_youtube b), (''tiktok'', b_tiktok b),
      (''threads'', b_threads b), (''bluesky'', b_bluesky b)]"

text \<open>The specification: the names whose handle field is present.\<close>

definition spec_brand_networks :: "brand \<Rightarrow> string list" where
  "spec_brand_networks b = map fst (filter (\<lambda>nh. snd nh \<noteq> None) (network_handles b))"

section \<open>Characters that \<open>JSON.stringify\<close> leaves as they are\<close>

definition json_plain :: "char \<Rightarrow> bool" where
  "json_plain c = (let n = (of_char c :: nat) in 32 \<le> n \<and> n \<noteq> 34 \<and> n \<noteq> 92)"

section \<open>Arrays in a store\<close>

text \<open>
  Whether the dispatcher changes an array it got from the client depends on which array
  \<open>sort\<close> is called on: \<open>sort\<close> rearranges its receiver in place, while the spread
  \<open>[...xs]\<close>, \<open>slice\<close>, \<open>filter\<close> and \<open>map\<close> build a new array. Here an array is a cell of a
  store, its reference the index of the cell, and a new array a new cell at the end.
\<close>

type_synonym 'a store = "'a list list"

definition alloc :: "'a store \<Rightarrow> 'a list \<Rightarrow> 'a store \<times> nat" where
  "alloc h xs = (h @ [xs], length h)"

text \<open>\<open>[...xs]\<close>\<close>

definition spread_copy :: "'a store \<Rightarrow> nat \<Rightarrow> 'a store \<times> nat" where
  "spread_copy h a = alloc h (h ! a)"

text \<open>\<open>xs.sort(cmp)\<close>: the receiver is rearranged and returned.\<close>

definition sort_in_place :: "('a \<Rightarrow> 'a \<Rightarrow> int) \<Rightarrow> 'a store \<Rightarrow> nat \<Rightarrow> 'a store \<times> nat" where
  "sort_in_place cmp h a = (h[a := js_sort cmp (h ! a)], a)"

text \<open>\<open>xs.slice(0, n)\<close>\<close>

definition slice_new :: "nat \<Rightarrow> 'a store \<Rightarrow> nat \<Rightarrow> 'a store \<times> nat" where
  "slice_new n h a = alloc h (slice0 n (h ! a))"

text \<open>\<open>xs.filter(P)\<close>\<close>

definition filter_new :: "('a \<Rightarrow> bool) \<Rightarrow> 'a store \<Rightarrow> nat \<Rightarrow> 'a store \<times> nat" where
  "filter_new P h a = alloc h (filter P (h ! a))"

text \<open>
  The array work of the four tools that receive an array, on a store: \<open>map\<close> and
  \<open>reduce\<close> only read, and the objects \<open>map\<close> builds go straight into the answer.
\<close>

definition brands_in_store :: "brand store \<Rightarrow> nat \<Rightarrow> brand store \<times> jsval" where
  "brands_in_store h brands =
     (h, JObj [(''success'', JBool True), (''brands'', JArr (map formattedBrand (h ! brands)))])"

definition scheduled_in_store :: "scheduled_post store \<Rightarrow> nat \<Rightarrow> scheduled_post store \<times> jsval" where
  "scheduled_in_store h posts =
     (let (h1, pending) = filter_new has_pending h posts
      in (h1, JObj [(''success'', JBool True),
                    (''count'', JNum (int (length (h1 ! pending)))),
                    (''posts'', JArr (map pending_view (h1 ! pending)))]))"

definition analytics_in_store :: "linkedin_post store \<Rightarrow> nat \<Rightarrow> linkedin_post store \<times> jsval" where
  "analytics_in_store h posts =
     (let t = foldl add_post zero_totals (h ! posts);
          (h1, copy) = spread_copy h posts;
          (h2, sorted) = sort_in_place by_engagement_desc h1 copy;
          (h3, top) = slice_new 5 h2 sorted
      in (h3, JObj [(''success'', JBool True),
                    (''summary'', analytics_summary t),
                    (''postCount'', JNum (int (length (h3 ! posts)))),
                    (''topPosts'', JArr (map top_post_view (h3 ! top)))]))"

definition best_time_in_store :: "best_time_slot store \<Rightarrow> nat \<Rightarrow> best_time_slot store \<times> jsval" where
  "best_time_in_store h slots =
     (let (h1, copy) = spread_copy h slots;
          (h2, sorted) = sort_in_place by_score_desc h1 copy;
          (h3, top) = slice_new 5 h2 sorted
      in (h3, JObj [(''success'', JBool True),
                    (''recommendation'',
                       JStr ''Based on your audience engagement patterns, here are the best times to post:''),
                    (''topSlots'', JArr (map slot_view (h3 ! top)))]))"

section \<open>An upstream service that answers with a given status and body\<close>

definition answers :: "(http_request \<Rightarrow> 'a fetch_result) \<Rightarrow> nat \<Rightarrow> string \<Rightarrow> bool" where
  "answers fetch st errorText = (\<forall>req. \<exists>parsed. fetch req = Response st errorText parsed)"

section \<open>Example data\<close>

definition empty_post :: linkedin_post where
  "empty_post =
     \<lparr> lp_id = None, lp_postId = None, lp_text = None, lp_content = None,
       lp_publishedAt = None, lp_date = None, lp_impressions = None, lp_engagements = None,
       lp_engagement = None, lp_clicks = None, lp_likes = None, lp_comments = None,
       lp_shares = None, lp_reactions = None \<rparr>"

definition slot :: "int \<Rightarrow> int \<Rightarrow> int \<Rightarrow> best_time_slot" where
  "slot d h s = \<lparr> dayOfWeek = d, hour = h, score = s \<rparr>"

text \<open>The two records of the specification's aggregation example.\<close>

definition post_100_10 :: linkedin_post where
  "post_100_10 = empty_post \<lparr> lp_impressions := Some 100, lp_engagements := Some 10 \<rparr>"

definition post_50_5 :: linkedin_post where
  "post_50_5 = empty_post \<lparr> lp_impressions := Some 50, lp_engagement := Some 5 \<rparr>"

text \<open>A record with impressions only, and totals with given engagements and impressions.\<close>

definition impressions_post :: "int \<Rightarrow> linkedin_post" where
  "impressions_post n = empty_post \<lparr> lp_impressions := Some n \<rparr>"

definition rate_totals :: "int \<Rightarrow> int \<Rightarrow> Totals" where
  "rate_totals e i = \<lparr> impressions = i, engagements = e, clicks = 0, likes = 0, comments = 0, shares = 0 \<rparr>"

text \<open>A record whose plural field is present and zero: \<open>{engagements: 0, engagement: 5}\<close>.\<close>

definition zero_plural_post :: linkedin_post where
  "zero_plural_post = empty_post \<lparr> lp_engagements := Some 0, lp_engagement := Some 5 \<rparr>"

text \<open>A record with a negative count: \<open>{impressions: -5, engagements: 1}\<close>.\<close>

definition negative_post :: linkedin_post where
  "negative_post = empty_post \<lparr> lp_impressions := Some (- 5), lp_engagements := Some 1 \<rparr>"

text \<open>A configuration, a clock, arguments and upstream services for the examples.\<close>

definition cfg0 :: metricool_config where
  "cfg0 = \<lparr> token = ''secret'', userId = ''42'' \<rparr>"

definition plat0 :: platform where
  "plat0 = \<lparr> now = 0, toISOString = (\<lambda>_. ''1970-01-01T00:00:00.000Z'') \<rparr>"

definition args0 :: tool_args where
  "args0 = \<lparr> arg_brandId = ''7'', arg_text = ''hello'', arg_dateTime = ''2024-01-15T10:00:00'',
             arg_timezone = None, arg_imageUrl = None, arg_startDate = None, arg_endDate = None \<rparr>"

text \<open>An upstream service that answers every request with status 403 and the body \<open>forbidden\<close>.\<close>

definition forbidden :: "http_request \<Rightarrow> 'a fetch_result" where
  "forbidden req = Response 403 ''forbidden'' (Inl ''Unexpected token'')"

definition forbidden_upstream :: upstream where
  "forbidden_upstream =
     \<lparr> up_brands = forbidden, up_schedule = forbidden, up_scheduled = forbidden,
       up_analytics = forbidden, up_best_time = forbidden \<rparr>"

text \<open>An upstream service that answers with status 200 and the given lists.\<close>

definition ok_post :: scheduled_post where
  "ok_post =
     \<lparr> sp_id = 1, sp_uuid = ''u-1'', sp_text = ''hello'',
       sp_publicationDate = \<lparr> pd_dateTime = ''2024-01-15T10:00:00'', pd_timezone = ''America/Costa_Rica'' \<rparr>,
       sp_providers = [\<lparr> prov_network = ''linkedin'', prov_status = ''PENDING'',
                         prov_detailedStatus = ''Pending'', prov_publicUrl = None \<rparr>],
       sp_draft = False \<rparr>"

definition ok_upstream ::
  "brand list \<Rightarrow> scheduled_post list \<Rightarrow> linkedin_post list \<Rightarrow> best_time_slot list \<Rightarrow> upstream" where
  "ok_upstream brands posts records slots =
     \<lparr> up_brands = (\<lambda>_. Response 200 [] (Inr brands)),
       up_schedule = (\<lambda>_. Response 200 [] (Inr \<lparr> data = ok_post \<rparr>)),
       up_scheduled = (\<lambda>_. Response 200 [] (Inr \<lparr> data = Some posts \<rparr>)),
       up_analytics = (\<lambda>_. Response 200 [] (Inr records)),
       up_best_time = (\<lambda>_. Response 200 [] (Inr \<lparr> data = Some slots \<rparr>)) \<rparr>"

text \<open>A brand with a LinkedIn page and an empty Twitter handle.\<close>

definition empty_handle_brand :: brand where
  "empty_handle_brand =
     \<lparr> b_id = 7, b_label = ''Acme'', b_twitter = Some [], b_facebook = None, b_instagram = None,
       b_linkedinCompany = Some ''acme'', b_youtube = None, b_tiktok = None, b_threads = None,
       b_bluesky = Some ''acme.bsky.social'' \<rparr>"

text \<open>A scheduled post with the given text and the given provider statuses.\<close>

definition post_with :: "int \<Rightarrow> string list \<Rightarrow> scheduled_post" where
  "post_with i statuses =
     \<lparr> sp_id = i, sp_uuid = ''u'', sp_text = ''t'',
       sp_publicationDate = \<lparr> pd_dateTime = ''2024-01-15T10:00:00'', pd_timezone = ''UTC'' \<rparr>,
       sp_providers = map (\<lambda>s. \<lparr> prov_network = ''linkedin'', prov_status = s,
                                   prov_detailedStatus = s, prov_publicUrl = None \<rparr>) statuses,
       sp_draft = False \<rparr>"

definition params0 :: schedule_post_params where
  "params0 = \<lparr> p_brandId = ''7'', p_text = ''hello'', p_dateTime = ''2024-01-15T10:00:00'',
               p_timezone = None, p_network = Some ''twitter'', p_imageUrl = Some ''https://x.test/a.png'' \<rparr>"

text \<open>A string in double quotes, and the line feed, to write JSON texts with.\<close>

definition dq :: "string \<Rightarrow> string" where
  "dq s = CHR 0x22 # s @ [CHR 0x22]"

definition nl :: string where
  "nl = [CHR 0x0A]"

definition aparams0 :: analytics_params where
  "aparams0 = \<lparr> a_brandId = ''7'', a_startDate = Some ''2024-01-01'', a_endDate = None \<rparr>"

section \<open>The sort is a stable sort\<close>








section \<open>Rounding to a double\<close>

lemma pow2_powi: "pow2 i = 2 powi i"
  unfolding pow2_def power_int_def
  by (simp only: power_inverse divide_inverse mult_1)

lemma pow2_pos: "0 < pow2 i"
  by (simp add: pow2_powi)

lemma pow2_mono: "i \<le> j \<Longrightarrow> pow2 i \<le> pow2 j"
  by (simp add: pow2_powi power_int_increasing)

lemma pow2_strict_mono: "i < j \<Longrightarrow> pow2 i < pow2 j"
  by (simp add: pow2_powi power_int_strict_increasing)

lemma pow2_diff: "pow2 (i - j) = pow2 i / pow2 j"
  by (simp add: pow2_powi power_int_diff)

lemma pow2_add: "pow2 (i + j) = pow2 i * pow2 j"
  by (simp add: pow2_powi power_int_add)

lemma pow2_nat: "pow2 (int n) = 2 ^ n"
  by (simp add: pow2_def)

lemma exponent_of_bounds:
  assumes "x \<noteq> 0"
  shows "pow2 (exponent_of x) \<le> \<bar>x\<bar>" and "\<bar>x\<bar> < pow2 (exponent_of x + 1)"
proof -
  obtain p q where pq: "quotient_of \<bar>x\<bar> = (p, q)" by (cases "quotient_of \<bar>x\<bar>")
  then have q: "0 < q" and x: "\<bar>x\<bar> = of_int p / of_int q"
    by (auto simp: quotient_of_denom_pos quotient_of_div)
  from assms have "0 < \<bar>x\<bar>" by simp
  with x q have p: "0 < p" by (simp add: zero_less_divide_iff)
  define bp bq where "bp = bitlen p" and "bq = bitlen q"
  from bitlen_bounds [OF p] have p1: "(2::rat) ^ nat (bp - 1) \<le> of_int p" and p2: "of_int p < (2::rat) ^ nat bp"
    unfolding bp_def by (metis of_int_le_iff of_int_numeral of_int_power, metis of_int_less_iff of_int_numeral of_int_power)
  from bitlen_bounds [OF q] have q1: "(2::rat) ^ nat (bq - 1) \<le> of_int q" and q2: "of_int q < (2::rat) ^ nat bq"
    unfolding bq_def by (metis of_int_le_iff of_int_numeral of_int_power, metis of_int_less_iff of_int_numeral of_int_power)
  have bp1: "1 \<le> bp" and bq1: "1 \<le> bq"
    using p q bitlen_eq_zero_iff [of p] bitlen_eq_zero_iff [of q] bitlen_nonneg [of p] bitlen_nonneg [of q]
    unfolding bp_def bq_def by linarith+
  have P1: "pow2 (bp - 1) \<le> of_int p" and P2: "of_int p < pow2 bp"
    and Q1: "pow2 (bq - 1) \<le> of_int q" and Q2: "of_int q < pow2 bq"
    using p1 p2 q1 q2 bp1 bq1 by (simp_all add: pow2_def)
  have qpos: "(0::rat) < of_int q" using q by simp
  have lower: "pow2 (bp - bq - 1) \<le> \<bar>x\<bar>"
  proof -
    have "pow2 (bp - bq - 1) = pow2 (bp - 1) / pow2 bq"
      using pow2_diff [of "bp - 1" bq] by (simp add: algebra_simps)
    also have "\<dots> \<le> of_int p / pow2 bq"
      using P1 pow2_pos [of bq] by (simp add: divide_right_mono)
    also have "\<dots> \<le> of_int p / of_int q"
      using Q2 qpos p by (intro divide_left_mono) (simp_all add: pow2_pos)
    finally show ?thesis by (simp add: x)
  qed
  have upper: "\<bar>x\<bar> < pow2 (bp - bq + 1)"
  proof -
    have "of_int p / of_int q < pow2 bp / of_int q"
      using P2 qpos by (simp add: divide_strict_right_mono)
    also have "\<dots> \<le> pow2 bp / pow2 (bq - 1)"
      using Q1 pow2_pos [of "bq - 1"] pow2_pos [of bp] by (intro divide_left_mono) simp_all
    also have "\<dots> = pow2 (bp - bq + 1)"
      using pow2_diff [of bp "bq - 1"] by (simp add: algebra_simps)
    finally show ?thesis by (simp add: x)
  qed
  have e: "exponent_of x = (if pow2 (bp - bq) \<le> \<bar>x\<bar> then bp - bq else bp - bq - 1)"
    by (simp add: exponent_of_def pq bp_def bq_def Let_def)
  show "pow2 (exponent_of x) \<le> \<bar>x\<bar>"
    using lower by (simp add: e)
  show "\<bar>x\<bar> < pow2 (exponent_of x + 1)"
    using upper by (auto simp: e)
qed


lemma round_to_double_normal:
  assumes lo: "pow2 (- 1022) \<le> \<bar>x\<bar>" and hi: "\<bar>x\<bar> < pow2 1023"
  shows "\<exists>y. round_to_double x = Finite y \<and> \<bar>y - x\<bar> \<le> \<bar>x\<bar> / 2 ^ 53"
proof -
  have x0: "x \<noteq> 0" using lo pow2_pos [of "- 1022"] by auto
  define e where "e = exponent_of x"
  have e1: "pow2 e \<le> \<bar>x\<bar>" and e2: "\<bar>x\<bar> < pow2 (e + 1)"
    unfolding e_def using exponent_of_bounds [OF x0] by simp_all
  have e_lo: "- 1022 \<le> e"
  proof (rule ccontr)
    assume "\<not> - 1022 \<le> e"
    then have "e + 1 \<le> - 1022" by simp
    then have "pow2 (e + 1) \<le> pow2 (- 1022)" by (rule pow2_mono)
    with e2 lo show False by simp
  qed
  have e_hi: "e < 1023"
  proof (rule ccontr)
    assume "\<not> e < 1023"
    then have "pow2 1023 \<le> pow2 e" by (intro pow2_mono) simp
    with e1 hi show False by simp
  qed
  have emax: "max (exponent_of x) (- 1022) = e" using e_lo by (simp add: e_def)
  define u where "u = pow2 (e - 52)"
  have u0: "0 < u" by (simp add: u_def pow2_pos)
  have "pow2 52 = 2 ^ 52" using pow2_nat [of 52] by simp
  then have u_eq: "u = pow2 e / 2 ^ 52" by (simp add: u_def pow2_diff)
  then have u_le: "u \<le> \<bar>x\<bar> / 2 ^ 52" using e1 by (simp add: divide_right_mono)
  define q where "q = \<lfloor>\<bar>x\<bar> / u\<rfloor>"
  define r where "r = \<bar>x\<bar> / u - of_int q"
  have r0: "0 \<le> r" and r1: "r < 1" unfolding r_def q_def by linarith+
  define m where "m = (if r < 1 / 2 then q else if 1 / 2 < r then q + 1 else if even q then q else q + 1)"
  have "m = q \<and> r \<le> 1 / 2 \<or> m = q + 1 \<and> 1 / 2 \<le> r"
    unfolding m_def by auto
  then have m_near: "\<bar>of_int m - \<bar>x\<bar> / u\<bar> \<le> 1 / 2"
  proof
    assume "m = q \<and> r \<le> 1 / 2"
    then show ?thesis using r0 unfolding r_def by (simp add: abs_le_iff)
  next
    assume "m = q + 1 \<and> 1 / 2 \<le> r"
    then show ?thesis using r1 unfolding r_def by (simp add: abs_le_iff)
  qed
  define y where "y = of_int m * u"
  have "y - \<bar>x\<bar> = (of_int m - \<bar>x\<bar> / u) * u" using u0 by (simp add: y_def field_simps)
  then have "\<bar>y - \<bar>x\<bar>\<bar> = \<bar>of_int m - \<bar>x\<bar> / u\<bar> * u" using u0 by (simp add: abs_mult)
  also have "\<dots> \<le> 1 / 2 * u" using m_near u0 by (intro mult_right_mono) simp_all
  also have "\<dots> \<le> 1 / 2 * (\<bar>x\<bar> / 2 ^ 52)" using u_le by simp
  also have "\<dots> = \<bar>x\<bar> / 2 ^ 53" by simp
  finally have near: "\<bar>y - \<bar>x\<bar>\<bar> \<le> \<bar>x\<bar> / 2 ^ 53" .
  have "\<bar>x\<bar> / 2 ^ 53 \<le> \<bar>x\<bar>" by (simp add: divide_le_eq)
  with near have "y \<le> 2 * \<bar>x\<bar>" by linarith
  also have "\<dots> < 2 * pow2 1023" using hi by simp
  also have "\<dots> = pow2 1024" using pow2_add [of 1023 1] by (simp add: pow2_def)
  finally have fin: "\<not> pow2 1024 \<le> y" by simp
  have "round_to_double x = Finite (if x < 0 then - y else y)"
    using x0 fin
    unfolding round_to_double_def emax Let_def u_def [symmetric] q_def [symmetric]
      r_def [symmetric] m_def [symmetric] y_def [symmetric]
    by simp
  moreover have "\<bar>(if x < 0 then - y else y) - x\<bar> = \<bar>y - \<bar>x\<bar>\<bar>"
    by (simp add: abs_if)
  ultimately show ?thesis using near by auto
qed

lemma rate_pipeline:
  assumes "0 < b" and "b \<le> 2 ^ 53" and "\<bar>a\<bar> \<le> 2 ^ 53"
  shows "\<exists>q r. js_div a b = Finite q \<and> js_times (Finite q) 100 = Finite r
           \<and> \<bar>q - of_int a / of_int b\<bar> \<le> \<bar>of_int a / of_int b\<bar> / 2 ^ 53
           \<and> \<bar>r - q * 100\<bar> \<le> \<bar>q * 100\<bar> / 2 ^ 53"
proof (cases "a = 0")
  case True
  then show ?thesis using assms(1) by (simp add: js_div_def js_times_def round_to_double_def)
next
  case False
  define x :: rat where "x = of_int a / of_int b"
  have b0: "(0::rat) < of_int b" using assms(1) by simp
  have "1 \<le> \<bar>a\<bar>" using False by simp
  then have "(1::rat) \<le> of_int \<bar>a\<bar>" by (simp only: of_int_1_le_iff)
  then have a1: "(1::rat) \<le> \<bar>of_int a\<bar>" by simp
  have ax: "\<bar>x\<bar> = \<bar>of_int a\<bar> / of_int b" using b0 by (simp add: x_def)
  have bl: "(of_int b :: rat) \<le> 2 ^ 53" using assms(2) by (metis of_int_le_iff of_int_numeral of_int_power)
  have al: "\<bar>of_int a :: rat\<bar> \<le> 2 ^ 53" using assms(3) by (metis of_int_abs of_int_le_iff of_int_numeral of_int_power)
  have b1: "(1::rat) \<le> of_int b" using assms(1) by simp
  have xlo: "1 / 2 ^ 53 \<le> \<bar>x\<bar>"
  proof -
    have "1 / 2 ^ 53 \<le> 1 / (of_int b :: rat)" using bl b0 by (simp add: frac_le)
    also have "\<dots> \<le> \<bar>of_int a\<bar> / of_int b" using a1 b0 by (simp add: divide_right_mono)
    finally show ?thesis by (simp add: ax)
  qed
  have xhi: "\<bar>x\<bar> \<le> 2 ^ 53"
  proof -
    have "\<bar>of_int a\<bar> / of_int b \<le> \<bar>of_int a :: rat\<bar> / 1" using b1 by (intro divide_left_mono) simp_all
    with al show ?thesis by (simp add: ax)
  qed
  have p53: "pow2 (- 53) = 1 / 2 ^ 53" by (simp add: pow2_def)
  have lo: "pow2 (- 1022) \<le> \<bar>x\<bar>"
    using pow2_mono [of "- 1022" "- 53"] xlo p53 by simp
  have "pow2 53 = 2 ^ 53" using pow2_nat [of 53] by simp
  then have hi: "\<bar>x\<bar> < pow2 1023"
    using pow2_strict_mono [of 53 1023] xhi by simp
  from round_to_double_normal [OF lo hi] obtain q where
    q: "round_to_double x = Finite q" and qe: "\<bar>q - x\<bar> \<le> \<bar>x\<bar> / 2 ^ 53" by blast
  have "\<bar>x\<bar> / 2 ^ 53 \<le> \<bar>x\<bar> / 2" by (simp add: divide_le_eq)
  with qe have q_lo: "\<bar>x\<bar> / 2 \<le> \<bar>q\<bar>" and q_hi: "\<bar>q\<bar> \<le> 2 * \<bar>x\<bar>" by linarith+
  have lo2: "pow2 (- 1022) \<le> \<bar>q * 100\<bar>"
  proof -
    have "pow2 (- 1022) \<le> \<bar>x\<bar>" by (rule lo)
    also have "\<dots> \<le> \<bar>q\<bar> * 100" using q_lo by linarith
    finally show ?thesis by (simp add: abs_mult)
  qed
  have hi2: "\<bar>q * 100\<bar> < pow2 1023"
  proof -
    have "\<bar>q * 100\<bar> = \<bar>q\<bar> * 100" by (simp add: abs_mult)
    also have "\<dots> \<le> 200 * 2 ^ 53" using q_hi xhi by linarith
    also have "\<dots> < 2 ^ 61" by simp
    also have "\<dots> = pow2 61" using pow2_nat [of 61] by simp
    also have "\<dots> < pow2 1023" by (intro pow2_strict_mono) simp
    finally show ?thesis .
  qed
  from round_to_double_normal [OF lo2 hi2] obtain r where
    r: "round_to_double (q * 100) = Finite r" and re: "\<bar>r - q * 100\<bar> \<le> \<bar>q * 100\<bar> / 2 ^ 53" by blast
  have "js_div a b = Finite q" using assms(1) q by (simp add: js_div_def x_def)
  moreover have "js_times (Finite q) 100 = Finite r" using r by (simp add: js_times_def)
  ultimately show ?thesis using qe re unfolding x_def by blast
qed

section \<open>The totals are sums\<close>

lemma or_zero_eq: "js_or_lit truthy_num a 0 = field_or_zero a"
  by (simp add: js_or_lit_def truthy_num_def field_or_zero_def split: option.splits)

lemma or_or_zero_eq: "field_or_zero (js_or truthy_num a b) = falsy_fallback a b"
  by (simp add: js_or_def truthy_opt_def truthy_num_def field_or_zero_def
      falsy_fallback_def split: option.splits)

lemma js_add_exact: "\<bar>a + b\<bar> \<le> 2 ^ 53 \<Longrightarrow> js_add a b = a + b"
  by (simp add: js_add_def round_to_double_int_def)

lemma add_post_eq:
  "add_post acc p =
     \<lparr> impressions = js_add (impressions acc) (field_or_zero (lp_impressions p)),
       engagements = js_add (engagements acc) (falsy_fallback (lp_engagements p) (lp_engagement p)),
       clicks = js_add (clicks acc) (field_or_zero (lp_clicks p)),
       likes = js_add (likes acc) (falsy_fallback (lp_likes p) (lp_reactions p)),
       comments = js_add (comments acc) (field_or_zero (lp_comments p)),
       shares = js_add (shares acc) (field_or_zero (lp_shares p)) \<rparr>"
  by (simp add: add_post_def engagement_value_def likes_value_def or_or_zero_eq or_zero_eq)

lemma foldl_add_post:
  "foldl add_post acc posts =
     \<lparr> impressions = foldl js_add (impressions acc) (map (\<lambda>p. field_or_zero (lp_impressions p)) posts),
       engagements = foldl js_add (engagements acc)
                       (map (\<lambda>p. falsy_fallback (lp_engagements p) (lp_engagement p)) posts),
       clicks = foldl js_add (clicks acc) (map (\<lambda>p. field_or_zero (lp_clicks p)) posts),
       likes = foldl js_add (likes acc) (map (\<lambda>p. falsy_fallback (lp_likes p) (lp_reactions p)) posts),
       comments = foldl js_add (comments acc) (map (\<lambda>p. field_or_zero (lp_comments p)) posts),
       shares = foldl js_add (shares acc) (map (\<lambda>p. field_or_zero (lp_shares p)) posts) \<rparr>"
proof (induction posts arbitrary: acc)
  case Nil
  then show ?case by simp
next
  case (Cons p posts)
  have "foldl add_post acc (p # posts) = foldl add_post (add_post acc p) posts"
    by simp
  then show ?case
    by (simp only: Cons.IH) (simp add: add_post_eq)
qed

lemma foldl_js_add_exact:
  "\<bar>acc\<bar> + (\<Sum>x\<leftarrow>xs. \<bar>x\<bar>) \<le> 2 ^ 53 \<Longrightarrow> foldl js_add acc xs = acc + sum_list xs"
proof (induction xs arbitrary: acc)
  case Nil
  then show ?case by simp
next
  case (Cons x xs)
  have nn: "0 \<le> (\<Sum>x\<leftarrow>xs. \<bar>x\<bar>)" by (rule sum_list_nonneg) auto
  from Cons.prems nn have "\<bar>acc + x\<bar> \<le> 2 ^ 53" by simp
  then have step: "js_add acc x = acc + x" by (rule js_add_exact)
  from Cons.prems have "\<bar>acc + x\<bar> + (\<Sum>x\<leftarrow>xs. \<bar>x\<bar>) \<le> 2 ^ 53" by simp
  from Cons.IH [OF this] show ?case by (simp add: step)
qed

lemma foldl_js_add_map_exact:
  "(\<Sum>p\<leftarrow>posts. \<bar>f p\<bar>) \<le> 2 ^ 53 \<Longrightarrow> foldl js_add 0 (map f posts) = (\<Sum>p\<leftarrow>posts. f p)"
  using foldl_js_add_exact [of 0 "map f posts"] by (simp add: comp_def)

text \<open>
  C1, as the code has it. The summary totals of get-analytics are the sums over all
  records of impressions, engagements, clicks, likes, comments and shares, taken from
  the left with JavaScript's addition, a missing field counting as zero; where the
  absolute values of a column add up to at most \<open>2^53\<close> no step is rounded and the
  total is the exact sum. The engagements of a record are its \<open>engagements\<close> field when
  that is present and not zero, and otherwise its \<open>engagement\<close> field; the likes are
  its \<open>likes\<close> field when present and not zero, and otherwise its \<open>reactions\<close> field.
  For \<open>{impressions: 100, engagements: 10}\<close> and \<open>{impressions: 50, engagement: 5}\<close> the
  totals are 150 impressions and 15 engagements.
\<close>

theorem C1_totals_are_sums:
  "((\<Sum>p\<leftarrow>posts. \<bar>field_or_zero (lp_impressions p)\<bar>) \<le> 2 ^ 53 \<longrightarrow>
        impressions (totals posts) = (\<Sum>p\<leftarrow>posts. field_or_zero (lp_impressions p)))
   \<and> ((\<Sum>p\<leftarrow>posts. \<bar>falsy_fallback (lp_engagements p) (lp_engagement p)\<bar>) \<le> 2 ^ 53 \<longrightarrow>
        engagements (totals posts) = (\<Sum>p\<leftarrow>posts. falsy_fallback (lp_engagements p) (lp_engagement p)))
   \<and> ((\<Sum>p\<leftarrow>posts. \<bar>field_or_zero (lp_clicks p)\<bar>) \<le> 2 ^ 53 \<longrightarrow>
        clicks (totals posts) = (\<Sum>p\<leftarrow>posts. field_or_zero (lp_clicks p)))
   \<and> ((\<Sum>p\<leftarrow>posts. \<bar>falsy_fallback (lp_likes p) (lp_reactions p)\<bar>) \<le> 2 ^ 53 \<longrightarrow>
        likes (totals posts) = (\<Sum>p\<leftarrow>posts. falsy_fallback (lp_likes p) (lp_reactions p)))
   \<and> ((\<Sum>p\<leftarrow>posts. \<bar>field_or_zero (lp_comments p)\<bar>) \<le> 2 ^ 53 \<longrightarrow>
        comments (totals posts) = (\<Sum>p\<leftarrow>posts. field_or_zero (lp_comments p)))
   \<and> ((\<Sum>p\<leftarrow>posts. \<bar>field_or_zero (lp_shares p)\<bar>) \<le> 2 ^ 53 \<longrightarrow>
        shares (totals posts) = (\<Sum>p\<leftarrow>posts. field_or_zero (lp_shares p)))
   \<and> falsy_fallback None b = field_or_zero b
   \<and> falsy_fallback (Some 0) b = field_or_zero b
   \<and> falsy_fallback (Some x) b = (if x = 0 then field_or_zero b else x)
   \<and> analytics_payload posts =
       JObj [(''success'', JBool True),
             (''summary'',
                JObj [(''impressions'', JNum (impressions (totals posts))),
                      (''engagements'', JNum (engagements (totals posts))),
                      (''engagementRate'', JStr (engagementRate (totals posts) @ ''%'')),
                      (''clicks'', JNum (clicks (totals posts))),
                      (''likes'', JNum (likes (totals posts))),
                      (''comments'', JNum (comments (totals posts))),
                      (''shares'', JNum (shares (totals posts)))]),
             (''postCount'', JNum (int (length posts))),
             (''topPosts'', JArr (map top_post_view (topPosts posts)))]
   \<and> impressions (totals [post_100_10, post_50_5]) = 150
   \<and> engagements (totals [post_100_10, post_50_5]) = 15"
proof -
  have ex: "totals [post_100_10, post_50_5]
          = \<lparr> impressions = 150, engagements = 15, clicks = 0, likes = 0, comments = 0, shares = 0 \<rparr>"
    by (simp add: totals_def add_post_eq zero_totals_def post_100_10_def post_50_5_def
        empty_post_def field_or_zero_def falsy_fallback_def js_add_exact)
  have p: "analytics_payload posts =
       JObj [(''success'', JBool True),
             (''summary'',
                JObj [(''impressions'', JNum (impressions (totals posts))),
                      (''engagements'', JNum (engagements (totals posts))),
                      (''engagementRate'', JStr (engagementRate (totals posts) @ ''%'')),
                      (''clicks'', JNum (clicks (totals posts))),
                      (''likes'', JNum (likes (totals posts))),
                      (''comments'', JNum (comments (totals posts))),
                      (''shares'', JNum (shares (totals posts)))]),
             (''postCount'', JNum (int (length posts))),
             (''topPosts'', JArr (map top_post_view (topPosts posts)))]"
    by (simp add: analytics_payload_def analytics_summary_def)
  have f: "falsy_fallback None b = field_or_zero b"
    "falsy_fallback (Some 0) b = field_or_zero b"
    "falsy_fallback (Some x) b = (if x = 0 then field_or_zero b else x)"
    by (simp_all add: falsy_fallback_def)
  have s: "impressions (totals posts) = foldl js_add 0 (map (\<lambda>p. field_or_zero (lp_impressions p)) posts)"
    "engagements (totals posts)
       = foldl js_add 0 (map (\<lambda>p. falsy_fallback (lp_engagements p) (lp_engagement p)) posts)"
    "clicks (totals posts) = foldl js_add 0 (map (\<lambda>p. field_or_zero (lp_clicks p)) posts)"
    "likes (totals posts) = foldl js_add 0 (map (\<lambda>p. falsy_fallback (lp_likes p) (lp_reactions p)) posts)"
    "comments (totals posts) = foldl js_add 0 (map (\<lambda>p. field_or_zero (lp_comments p)) posts)"
    "shares (totals posts) = foldl js_add 0 (map (\<lambda>p. field_or_zero (lp_shares p)) posts)"
    by (simp_all add: totals_def foldl_add_post zero_totals_def)
  show ?thesis
    apply (intro conjI impI)
                apply (simp only: s foldl_js_add_map_exact)
               apply (simp only: s foldl_js_add_map_exact)
              apply (simp only: s foldl_js_add_map_exact)
             apply (simp only: s foldl_js_add_map_exact)
            apply (simp only: s foldl_js_add_map_exact)
           apply (simp only: s foldl_js_add_map_exact)
          apply (rule f)
         apply (rule f)
        apply (rule f)
       apply (rule p)
      apply (simp add: ex)
     apply (simp add: ex)
    done
qed

theorem C1_totals_are_sums_witness:
  "(\<Sum>p\<leftarrow>[post_100_10, post_50_5]. \<bar>field_or_zero (lp_impressions p)\<bar>) \<le> 2 ^ 53
   \<and> (\<Sum>p\<leftarrow>[post_100_10, post_50_5]. \<bar>falsy_fallback (lp_engagements p) (lp_engagement p)\<bar>) \<le> 2 ^ 53
   \<and> (\<Sum>p\<leftarrow>[post_100_10, post_50_5]. \<bar>field_or_zero (lp_clicks p)\<bar>) \<le> 2 ^ 53
   \<and> (\<Sum>p\<leftarrow>[post_100_10, post_50_5]. \<bar>falsy_fallback (lp_likes p) (lp_reactions p)\<bar>) \<le> 2 ^ 53
   \<and> (\<Sum>p\<leftarrow>[post_100_10, post_50_5]. \<bar>field_or_zero (lp_comments p)\<bar>) \<le> 2 ^ 53
   \<and> (\<Sum>p\<leftarrow>[post_100_10, post_50_5]. \<bar>field_or_zero (lp_shares p)\<bar>) \<le> 2 ^ 53
   \<and> impressions (totals [post_100_10, post_50_5])
       = (\<Sum>p\<leftarrow>[post_100_10, post_50_5]. field_or_zero (lp_impressions p))
   \<and> engagements (totals [post_100_10, post_50_5])
       = (\<Sum>p\<leftarrow>[post_100_10, post_50_5]. falsy_fallback (lp_engagements p) (lp_engagement p))
   \<and> clicks (totals [post_100_10, post_50_5])
       = (\<Sum>p\<leftarrow>[post_100_10, post_50_5]. field_or_zero (lp_clicks p))
   \<and> likes (totals [post_100_10, post_50_5])
       = (\<Sum>p\<leftarrow>[post_100_10, post_50_5]. falsy_fallback (lp_likes p) (lp_reactions p))
   \<and> comments (totals [post_100_10, post_50_5])
       = (\<Sum>p\<leftarrow>[post_100_10, post_50_5]. field_or_zero (lp_comments p))
   \<and> shares (totals [post_100_10, post_50_5])
       = (\<Sum>p\<leftarrow>[post_100_10, post_50_5]. field_or_zero (lp_shares p))
   \<and> impressions (totals [post_100_10, post_50_5]) = 150
   \<and> engagements (totals [post_100_10, post_50_5]) = 15"
proof -
  have h: "(\<Sum>p\<leftarrow>[post_100_10, post_50_5]. \<bar>field_or_zero (lp_impressions p)\<bar>) \<le> 2 ^ 53"
    "(\<Sum>p\<leftarrow>[post_100_10, post_50_5]. \<bar>falsy_fallback (lp_engagements p) (lp_engagement p)\<bar>) \<le> 2 ^ 53"
    "(\<Sum>p\<leftarrow>[post_100_10, post_50_5]. \<bar>field_or_zero (lp_clicks p)\<bar>) \<le> 2 ^ 53"
    "(\<Sum>p\<leftarrow>[post_100_10, post_50_5]. \<bar>falsy_fallback (lp_likes p) (lp_reactions p)\<bar>) \<le> 2 ^ 53"
    "(\<Sum>p\<leftarrow>[post_100_10, post_50_5]. \<bar>field_or_zero (lp_comments p)\<bar>) \<le> 2 ^ 53"
    "(\<Sum>p\<leftarrow>[post_100_10, post_50_5]. \<bar>field_or_zero (lp_shares p)\<bar>) \<le> 2 ^ 53"
    by (simp_all add: post_100_10_def post_50_5_def empty_post_def field_or_zero_def falsy_fallback_def)
  from C1_totals_are_sums [of "[post_100_10, post_50_5]"] h show ?thesis
    by blast
qed

text \<open>
  The specification's wording, the fallback taken only when the plural field is absent,
  fails on \<open>{engagements: 0, engagement: 5}\<close>: the code counts 5, the wording 0.
\<close>

theorem C1_zero_plural_counterexample:
  "engagements (totals [zero_plural_post]) = 5
   \<and> engagements (spec_totals [zero_plural_post]) = 0"
  by (simp add: totals_def add_post_eq zero_totals_def spec_totals_def zero_plural_post_def
      empty_post_def field_or_zero_def falsy_fallback_def spec_fallback_def js_add_exact)

text \<open>Where no plural field holds a zero, the code and the specification's wording agree.\<close>

lemma falsy_fallback_spec: "a \<noteq> Some 0 \<Longrightarrow> falsy_fallback a b = spec_fallback a b"
  by (simp add: falsy_fallback_def spec_fallback_def split: option.splits)

text \<open>Beyond \<open>2^53\<close> a total is rounded as the double is: \<open>2^53 + 1\<close> is \<open>2^53\<close>.\<close>

lemma totals_round_as_doubles:
  "impressions (totals [impressions_post (2 ^ 53), impressions_post 1]) = 2 ^ 53"
  "impressions (totals [impressions_post (2 ^ 53), impressions_post 3]) = 2 ^ 53 + 4"
  by code_simp+

section \<open>The engagement rate\<close>

lemma hundredths_nearest: "\<bar>of_nat (hundredths x) / 100 - \<bar>x\<bar>\<bar> \<le> 1 / 200"
proof -
  define y where "y = \<bar>x\<bar> * 100 + 1 / 2"
  have "0 \<le> y" by (simp add: y_def)
  then have "0 \<le> \<lfloor>y\<rfloor>" by simp
  then have n: "(of_nat (hundredths x) :: rat) = of_int \<lfloor>y\<rfloor>"
    by (simp add: hundredths_def y_def)
  have "of_int \<lfloor>y\<rfloor> \<le> \<bar>x\<bar> * 100 + 1 / 2" "\<bar>x\<bar> * 100 + 1 / 2 < of_int \<lfloor>y\<rfloor> + 1"
    unfolding y_def by linarith+
  then show ?thesis unfolding n by linarith
qed

lemma dot_in_toFixed2: "CHR ''.'' \<in> set (toFixed2 (Finite x))"
  by (simp add: toFixed2_def Let_def)

text \<open>
  C4, as the code has it. For totals of at most \<open>2^53\<close> in magnitude: when the total
  impressions are zero or negative the reported rate is exactly \<open>"0.00%"\<close>, and no
  quotient is formed; when they are positive the rate is \<open>r.toFixed(2)\<close> followed by
  \<open>%\<close>, where \<open>q\<close> is the double nearest to engagements divided by impressions and \<open>r\<close>
  the double nearest to \<open>q\<close> times 100, each within one part in \<open>2^53\<close> of what it
  rounds. A quotient by zero, which would read \<open>NaN\<close> or \<open>Infinity\<close>, is never
  reported. \<open>toFixed(2)\<close> writes the sign and the hundredth nearest to the value, with
  two decimals. 15 engagements over 150 impressions give \<open>"10.00%"\<close>; 23 over 160 give
  \<open>"14.37%"\<close>, as the product is the double just below 14.375.
\<close>

theorem C4_engagement_rate:
  assumes "\<bar>engagements t\<bar> \<le> 2 ^ 53" and "\<bar>impressions t\<bar> \<le> 2 ^ 53"
  shows "(impressions t \<le> 0 \<longrightarrow> engagementRate t @ ''%'' = ''0.00%'')
    \<and> (0 < impressions t \<longrightarrow>
         (\<exists>q r. js_div (engagements t) (impressions t) = Finite q
            \<and> round_to_double (of_int (engagements t) / of_int (impressions t)) = Finite q
            \<and> \<bar>q - of_int (engagements t) / of_int (impressions t)\<bar>
                 \<le> \<bar>of_int (engagements t) / of_int (impressions t)\<bar> / 2 ^ 53
            \<and> js_times (Finite q) 100 = Finite r
            \<and> round_to_double (q * 100) = Finite r
            \<and> \<bar>r - q * 100\<bar> \<le> \<bar>q * 100\<bar> / 2 ^ 53
            \<and> engagementRate t @ ''%'' =
                (if r < 0 then ''-'' else []) @ string_of_nat (hundredths r div 100) @ ''.''
                  @ [digit_char (hundredths r mod 100 div 10), digit_char (hundredths r mod 10)] @ ''%''
            \<and> \<bar>of_nat (hundredths r) / 100 - \<bar>r\<bar>\<bar> \<le> 1 / 200))
    \<and> engagementRate t \<notin> {''NaN'', ''Infinity'', ''-Infinity''}
    \<and> engagementRate (totals [post_100_10, post_50_5]) @ ''%'' = ''10.00%''
    \<and> engagementRate (rate_totals 23 160) @ ''%'' = ''14.37%''"
proof -
  have zero: "impressions t \<le> 0 \<Longrightarrow> engagementRate t @ ''%'' = ''0.00%''"
    by (simp add: engagementRate_def)
  have pos: "\<exists>q r. js_div (engagements t) (impressions t) = Finite q
            \<and> round_to_double (of_int (engagements t) / of_int (impressions t)) = Finite q
            \<and> \<bar>q - of_int (engagements t) / of_int (impressions t)\<bar>
                 \<le> \<bar>of_int (engagements t) / of_int (impressions t)\<bar> / 2 ^ 53
            \<and> js_times (Finite q) 100 = Finite r
            \<and> round_to_double (q * 100) = Finite r
            \<and> \<bar>r - q * 100\<bar> \<le> \<bar>q * 100\<bar> / 2 ^ 53
            \<and> engagementRate t @ ''%'' =
                (if r < 0 then ''-'' else []) @ string_of_nat (hundredths r div 100) @ ''.''
                  @ [digit_char (hundredths r mod 100 div 10), digit_char (hundredths r mod 10)] @ ''%''
            \<and> \<bar>of_nat (hundredths r) / 100 - \<bar>r\<bar>\<bar> \<le> 1 / 200"
    if i: "0 < impressions t"
  proof -
    from i assms(2) have "impressions t \<le> 2 ^ 53" by simp
    from rate_pipeline [OF i this assms(1)] obtain q r where
      q: "js_div (engagements t) (impressions t) = Finite q"
      and r: "js_times (Finite q) 100 = Finite r"
      and qe: "\<bar>q - of_int (engagements t) / of_int (impressions t)\<bar>
                 \<le> \<bar>of_int (engagements t) / of_int (impressions t)\<bar> / 2 ^ 53"
      and re: "\<bar>r - q * 100\<bar> \<le> \<bar>q * 100\<bar> / 2 ^ 53"
      by blast
    have q': "round_to_double (of_int (engagements t) / of_int (impressions t)) = Finite q"
      using q i by (simp add: js_div_def)
    have r': "round_to_double (q * 100) = Finite r"
      using r by (simp add: js_times_def)
    have "engagementRate t = toFixed2 (Finite r)"
      using i by (simp add: engagementRate_def q r)
    then have "engagementRate t @ ''%'' =
                (if r < 0 then ''-'' else []) @ string_of_nat (hundredths r div 100) @ ''.''
                  @ [digit_char (hundredths r mod 100 div 10), digit_char (hundredths r mod 10)] @ ''%''"
      by (simp add: toFixed2_def Let_def)
    with q q' r r' qe re hundredths_nearest [of r] show ?thesis by blast
  qed
  have fin: "engagementRate t \<notin> {''NaN'', ''Infinity'', ''-Infinity''}"
  proof (cases "0 < impressions t")
    case True
    then obtain q r where "js_div (engagements t) (impressions t) = Finite q"
      and "js_times (Finite q) 100 = Finite r"
      using pos by blast
    then have "engagementRate t = toFixed2 (Finite r)"
      using True by (simp add: engagementRate_def)
    then have "CHR ''.'' \<in> set (engagementRate t)" by (simp add: dot_in_toFixed2)
    then show ?thesis by auto
  next
    case False
    then show ?thesis by (simp add: engagementRate_def)
  qed
  have ex1: "engagementRate (totals [post_100_10, post_50_5]) @ ''%'' = ''10.00%''"
    by code_simp
  have ex2: "engagementRate (rate_totals 23 160) @ ''%'' = ''14.37%''"
    by code_simp
  from zero pos fin ex1 ex2 show ?thesis
    by (intro conjI impI) assumption+
qed

theorem C4_engagement_rate_witness:
  "\<bar>engagements (rate_totals 23 160)\<bar> \<le> 2 ^ 53
   \<and> \<bar>impressions (rate_totals 23 160)\<bar> \<le> 2 ^ 53
   \<and> 0 < impressions (rate_totals 23 160)
   \<and> js_div (engagements (rate_totals 23 160)) (impressions (rate_totals 23 160))
        = Finite (2589569785738035 / 18014398509481984)
   \<and> js_times (Finite (2589569785738035 / 18014398509481984)) 100
        = Finite (8092405580431359 / 562949953421312)
   \<and> engagementRate (rate_totals 23 160) @ ''%'' = ''14.37%''
   \<and> engagementRate (rate_totals 23 160) \<notin> {''NaN'', ''Infinity'', ''-Infinity''}"
proof -
  have h1: "\<bar>engagements (rate_totals 23 160)\<bar> \<le> 2 ^ 53"
    and h2: "\<bar>impressions (rate_totals 23 160)\<bar> \<le> 2 ^ 53"
    and h3: "0 < impressions (rate_totals 23 160)"
    by (simp_all add: rate_totals_def)
  have e1: "js_div (engagements (rate_totals 23 160)) (impressions (rate_totals 23 160))
        = Finite (2589569785738035 / 18014398509481984)"
    by code_simp
  have e2: "js_times (Finite (2589569785738035 / 18014398509481984)) 100
        = Finite (8092405580431359 / 562949953421312)"
    by code_simp
  from C4_engagement_rate [OF h1 h2] h1 h2 h3 e1 e2 show ?thesis
    by blast
qed

text \<open>
  The specification's wording, the formatted quotient whenever the impressions are not
  zero, fails on the single record \<open>{impressions: -5, engagements: 1}\<close>: the code
  reports \<open>"0.00"\<close>, the wording \<open>"-20.00"\<close>.
\<close>

theorem C4_negative_impressions_counterexample:
  "impressions (totals [negative_post]) = - 5
   \<and> engagementRate (totals [negative_post]) = ''0.00''
   \<and> spec_engagementRate (totals [negative_post]) = ''-20.00''"
  by code_simp

section \<open>Serialisation lemmas\<close>

lemma json_escape_plain: "json_plain c \<Longrightarrow> json_escape_char c = [c]"
  by (auto simp: json_plain_def json_escape_char_def Let_def)

lemma json_quote_plain: "list_all json_plain s \<Longrightarrow> json_quote s = CHR 0x22 # s @ [CHR 0x22]"
  by (induction s) (auto simp: json_quote_def json_escape_plain)

lemma stringify_error_object:
  "JSON_stringify (JObj [(''error'', JStr msg)]) =
     Some (''{'' @ json_quote ''error'' @ '':'' @ json_quote msg @ ''}'')"
  by (simp add: JSON_stringify_def wrap_json_def)

lemma json_quote_error: "json_quote ''error'' = [CHR 0x22] @ ''error'' @ [CHR 0x22]"
  by code_simp

lemma unknown_prefix_plain: "list_all json_plain ''Unknown tool: ''"
  by code_simp

lemma serialize_None_iff: "serialize gap ind v = None \<longleftrightarrow> v = JUndefined"
  by (cases v) simp_all

lemma members_skip_undefined:
  "concat (map (\<lambda>kv. case serialize gap i (snd kv) of None \<Rightarrow> [] | Some s \<Rightarrow> [g kv s])
             (filter (\<lambda>kv. snd kv \<noteq> JUndefined) kvs))
   = concat (map (\<lambda>kv. case serialize gap i (snd kv) of None \<Rightarrow> [] | Some s \<Rightarrow> [g kv s]) kvs)"
  by (induction kvs) simp_all

lemma serialize_drops_undefined:
  "serialize gap ind (JObj (filter (\<lambda>kv. snd kv \<noteq> JUndefined) kvs)) = serialize gap ind (JObj kvs)"
  using members_skip_undefined
    [where gap = gap and i = "ind @ gap" and kvs = kvs
       and g = "\<lambda>kv s. json_quote (fst kv) @ '':'' @ (if gap = [] then [] else '' '') @ s"]
  by simp

section \<open>Unknown tools\<close>

text \<open>
  C7, as the code has it. For every tool name that is not one of the five of the
  catalogue, the call sends no request and returns an answer flagged as an error whose
  text is the JSON encoding of \<open>{error: "Unknown tool: <name>"}\<close>. Where the name has no
  character that JSON escapes (no double quote, no backslash, no control character),
  that text is \<open>{"error":"Unknown tool: <name>"}\<close> and so contains the literal
  \<open>Unknown tool: <name>\<close>.
\<close>

theorem C7_unknown_tool:
  assumes "name \<notin> set TOOLS"
  shows "fst (call_tool up cfg plat name args) = []
    \<and> isError (snd (call_tool up cfg plat name args)) = Some True
    \<and> content_text (snd (call_tool up cfg plat name args))
        = JSON_stringify (JObj [(''error'', JStr (''Unknown tool: '' @ name))])
    \<and> JSON_stringify (JObj [(''error'', JStr (''Unknown tool: '' @ name))])
        = Some ([CHR ''{'', CHR 0x22] @ ''error'' @ [CHR 0x22, CHR '':'']
                 @ json_quote (''Unknown tool: '' @ name) @ ''}'')
    \<and> (list_all json_plain name \<longrightarrow>
         content_text (snd (call_tool up cfg plat name args))
           = Some ([CHR ''{'', CHR 0x22] @ ''error'' @ [CHR 0x22, CHR '':'', CHR 0x22]
                    @ (''Unknown tool: '' @ name) @ [CHR 0x22, CHR ''}'']))"
proof -
  have call: "call_tool up cfg plat name args = ([], unknown_tool_result name)"
    using assms by (simp add: call_tool_def TOOLS_def)
  have plain: "list_all json_plain name \<Longrightarrow>
      json_quote (''Unknown tool: '' @ name) = CHR 0x22 # (''Unknown tool: '' @ name) @ [CHR 0x22]"
    using unknown_prefix_plain by (intro json_quote_plain) simp
  show ?thesis
    unfolding call
    by (auto simp add: unknown_tool_result_def stringify_error_object json_quote_error dest: plain)
qed

theorem C7_unknown_tool_witness:
  "''metricool_delete_post'' \<notin> set TOOLS
   \<and> list_all json_plain ''metricool_delete_post''
   \<and> call_tool forbidden_upstream cfg0 plat0 ''metricool_delete_post'' args0
       = ([], \<lparr> content_text = Some ([CHR ''{'', CHR 0x22] @ ''error'' @ [CHR 0x22, CHR '':'', CHR 0x22]
                    @ ''Unknown tool: metricool_delete_post'' @ [CHR 0x22, CHR ''}'']),
                isError = Some True \<rparr>)"
proof -
  have h: "''metricool_delete_post'' \<notin> set TOOLS" by (simp add: TOOLS_def)
  have p: "list_all json_plain ''metricool_delete_post''" by code_simp
  show ?thesis
    using h p C7_unknown_tool [OF h, of forbidden_upstream cfg0 plat0 args0]
    by (cases "call_tool forbidden_upstream cfg0 plat0 ''metricool_delete_post'' args0")
       (cases "snd (call_tool forbidden_upstream cfg0 plat0 ''metricool_delete_post'' args0)", simp)
qed

text \<open>
  The specification's wording, that the text contains the literal for every unknown name, fails
  on the name made of one double quote: JSON writes the quote as backslash, quote, and the
  text \<open>{"error":"Unknown tool: \""}\<close> does not contain \<open>Unknown tool: "\<close>.
\<close>

theorem C7_quote_in_name_counterexample:
  "[CHR 0x22] \<notin> set TOOLS
   \<and> content_text (snd (call_tool forbidden_upstream cfg0 plat0 [CHR 0x22] args0))
       = Some ([CHR ''{'', CHR 0x22] @ ''error'' @ [CHR 0x22, CHR '':'', CHR 0x22]
                @ ''Unknown tool: '' @ [CHR 0x5C, CHR 0x22] @ [CHR 0x22, CHR ''}''])
   \<and> \<not> sublist (''Unknown tool: '' @ [CHR 0x22])
          ([CHR ''{'', CHR 0x22] @ ''error'' @ [CHR 0x22, CHR '':'', CHR 0x22]
                @ ''Unknown tool: '' @ [CHR 0x5C, CHR 0x22] @ [CHR 0x22, CHR ''}''])"
  by code_simp

section \<open>The networks of a brand\<close>

lemma and_lit_keep:
  "lit \<noteq> [] \<Longrightarrow>
   (case js_and_lit a lit of None \<Rightarrow> [] | Some s \<Rightarrow> if truthy_str s then [s] else [])
     = (if a \<noteq> None \<and> a \<noteq> Some [] then [lit] else [])"
  by (auto simp: js_and_lit_def truthy_opt_def truthy_str_def split: option.splits)

lemma map_fst_filter_concat:
  "map fst (filter P xs) = concat (map (\<lambda>x. if P x then [fst x] else []) xs)"
  by (induction xs) simp_all

lemma brand_networks_eq:
  "brand_networks b =
     map fst (filter (\<lambda>nh. snd nh \<noteq> None \<and> snd nh \<noteq> Some []) (network_handles b))"
  unfolding map_fst_filter_concat
  by (simp add: brand_networks_def filter_Boolean_def network_handles_def and_lit_keep)

text \<open>
  C8, as the code has it. For every brand returned by the client, the get-brands tool
  shows \<open>{id, name, networks}\<close>: the id as a string, the label as the name, and as
  networks exactly the names whose handle field is present and not the empty string, in
  the fixed order linkedin (from the linkedin-company field), twitter, facebook,
  instagram, youtube, tiktok, threads, bluesky.
\<close>

theorem C8_brand_networks:
  "brand_networks b =
     map fst (filter (\<lambda>nh. snd nh \<noteq> None \<and> snd nh \<noteq> Some [])
       [(''linkedin'', b_linkedinCompany b), (''twitter'', b_twitter b), (''facebook'', b_facebook b),
        (''instagram'', b_instagram b), (''youtube'', b_youtube b), (''tiktok'', b_tiktok b),
        (''threads'', b_threads b), (''bluesky'', b_bluesky b)])
   \<and> formattedBrand b =
       JObj [(''id'', JStr (js_string_of_int (b_id b))),
             (''name'', JStr (b_label b)),
             (''networks'', JArr (map JStr (brand_networks b)))]
   \<and> brands_payload brands =
       JObj [(''success'', JBool True), (''brands'', JArr (map formattedBrand brands))]
   \<and> call_tool up cfg plat ''metricool_get_brands'' args =
       after_call brands_payload (getBrands (up_brands up) cfg)
   \<and> after_call brands_payload (req, Inr brands) = ([req], ok_result (brands_payload brands))"
  using brand_networks_eq [of b]
  by (simp add: network_handles_def formattedBrand_def brands_payload_def call_tool_def after_call_def)

text \<open>
  The specification's wording, every name whose handle field is present, fails on a brand whose
  Twitter handle is the empty string: the field is present and the code leaves twitter out.
\<close>

theorem C8_empty_handle_counterexample:
  "b_twitter empty_handle_brand = Some []
   \<and> brand_networks empty_handle_brand = [''linkedin'', ''bluesky'']
   \<and> spec_brand_networks empty_handle_brand = [''linkedin'', ''twitter'', ''bluesky'']"
  by code_simp

section \<open>The body of a schedule-post request\<close>

lemma or_lit_str: "js_or_lit truthy_str a d = (case a of Some z \<Rightarrow> if z = [] then d else z | None \<Rightarrow> d)"
  by (simp add: js_or_lit_def truthy_str_def split: option.splits)

text \<open>
  C3. For every schedule-post call, the body sent upstream is the JSON of an object with
  the text, a publicationDate \<open>{dateTime, timezone}\<close> (the timezone defaulting to
  America/Costa_Rica), a providers list with the single entry \<open>{network}\<close>, and
  autoPublish true; it has the field linkedinData \<open>{previewIncluded: true, type: "POST"}\<close>
  exactly when the resolved network (the given one, linkedin by default) is linkedin, the
  \<open>undefined\<close> the code stores otherwise being left out by \<open>JSON.stringify\<close>; and when an
  image URL (a string that is not empty) is supplied it has, last, a media list of that
  one element.
\<close>

theorem C3_schedule_post_body:
  "req_body (fst (schedulePost fetch cfg params)) = JSON_stringify (JObj (schedulePost_body params))
   \<and> JSON_stringify (JObj (schedulePost_body params)) =
       JSON_stringify (JObj (
         [(''text'', JStr (p_text params)),
          (''publicationDate'',
             JObj [(''dateTime'', JStr (p_dateTime params)),
                   (''timezone'', JStr (case p_timezone params of
                                          Some z \<Rightarrow> if z = [] then ''America/Costa_Rica'' else z
                                        | None \<Rightarrow> ''America/Costa_Rica''))]),
          (''providers'', JArr [JObj [(''network'', JStr (schedulePost_network params))]]),
          (''autoPublish'', JBool True)]
         @ (if schedulePost_network params = ''linkedin''
            then [(''linkedinData'', JObj [(''previewIncluded'', JBool True), (''type'', JStr ''POST'')])]
            else [])
         @ (case p_imageUrl params of
              Some u \<Rightarrow> if u = [] then [] else [(''media'', JArr [JStr u])]
            | None \<Rightarrow> [])))
   \<and> schedulePost_network params =
       (case p_network params of Some n \<Rightarrow> if n = [] then ''linkedin'' else n | None \<Rightarrow> ''linkedin'')"
proof -
  have "filter (\<lambda>kv. snd kv \<noteq> JUndefined) (schedulePost_body params) =
         [(''text'', JStr (p_text params)),
          (''publicationDate'',
             JObj [(''dateTime'', JStr (p_dateTime params)),
                   (''timezone'', JStr (case p_timezone params of
                                          Some z \<Rightarrow> if z = [] then ''America/Costa_Rica'' else z
                                        | None \<Rightarrow> ''America/Costa_Rica''))]),
          (''providers'', JArr [JObj [(''network'', JStr (schedulePost_network params))]]),
          (''autoPublish'', JBool True)]
         @ (if schedulePost_network params = ''linkedin''
            then [(''linkedinData'', JObj [(''previewIncluded'', JBool True), (''type'', JStr ''POST'')])]
            else [])
         @ (case p_imageUrl params of
              Some u \<Rightarrow> if u = [] then [] else [(''media'', JArr [JStr u])]
            | None \<Rightarrow> [])"
    by (simp add: schedulePost_body_def Let_def or_lit_str truthy_opt_def truthy_str_def opt_str_def
        split: option.splits)
  then have "JSON_stringify (JObj (schedulePost_body params)) = JSON_stringify (JObj (
         [(''text'', JStr (p_text params)),
          (''publicationDate'',
             JObj [(''dateTime'', JStr (p_dateTime params)),
                   (''timezone'', JStr (case p_timezone params of
                                          Some z \<Rightarrow> if z = [] then ''America/Costa_Rica'' else z
                                        | None \<Rightarrow> ''America/Costa_Rica''))]),
          (''providers'', JArr [JObj [(''network'', JStr (schedulePost_network params))]]),
          (''autoPublish'', JBool True)]
         @ (if schedulePost_network params = ''linkedin''
            then [(''linkedinData'', JObj [(''previewIncluded'', JBool True), (''type'', JStr ''POST'')])]
            else [])
         @ (case p_imageUrl params of
              Some u \<Rightarrow> if u = [] then [] else [(''media'', JArr [JStr u])]
            | None \<Rightarrow> [])))"
    unfolding JSON_stringify_def
    using serialize_drops_undefined [of "[]" "[]" "schedulePost_body params"] by simp
  moreover have "req_body (fst (schedulePost fetch cfg params)) = JSON_stringify (JObj (schedulePost_body params))"
    by (simp add: schedulePost_def map_result_def request_def Let_def)
  moreover have "schedulePost_network params =
       (case p_network params of Some n \<Rightarrow> if n = [] then ''linkedin'' else n | None \<Rightarrow> ''linkedin'')"
    by (simp add: schedulePost_network_def or_lit_str)
  ultimately show ?thesis by blast
qed

section \<open>Upstream errors\<close>

lemma request_error:
  assumes "answers fetch st errorText" and "\<not> (200 \<le> st \<and> st \<le> 299)"
  shows "snd (request fetch cfg endpoint query meth body) = Inl (JsError (api_error_message st errorText))"
proof -
  obtain parsed where
    "fetch \<lparr> req_url = baseUrl @ endpoint, req_query = query, req_method = meth,
             req_headers = [(''X-Mc-Auth'', token cfg), (''Content-Type'', ''application/json'')],
             req_body = body \<rparr> = Response st errorText parsed"
    using assms(1) unfolding answers_def by blast
  then show ?thesis
    using assms(2) by (simp add: request_def response_ok_def)
qed

lemma map_result_error: "snd r = Inl e \<Longrightarrow> snd (map_result f r) = Inl e"
  by (simp add: map_result_def)

lemma after_call_error: "snd r = Inl e \<Longrightarrow> snd (after_call present r) = catch_result e"
  by (simp add: after_call_def)

lemma after_call_ok: "snd r = Inr v \<Longrightarrow> snd (after_call present r) = ok_result (present v)"
  by (simp add: after_call_def)

text \<open>
  C6. When the upstream service answers with a status outside 200 to 299 (403 with the
  body \<open>forbidden\<close>, say), every operation of the client throws an error whose message is
  \<open>Metricool API error (<status>): <body>\<close>, so it contains the status code and the body;
  and for each of the five tools the dispatcher catches it and returns the answer flagged
  as an error whose text is the JSON of \<open>{success: false, error: <that message>}\<close>.
\<close>

theorem C6_upstream_error:
  assumes "\<not> (200 \<le> st \<and> st \<le> 299)"
    and "answers (up_brands up) st errorText"
    and "answers (up_schedule up) st errorText"
    and "answers (up_scheduled up) st errorText"
    and "answers (up_analytics up) st errorText"
    and "answers (up_best_time up) st errorText"
    and "answers (fetch_delete :: http_request \<Rightarrow> unit fetch_result) st errorText"
  shows "api_error_message st errorText = ''Metricool API error ('' @ string_of_nat st @ ''): '' @ errorText
    \<and> sublist (string_of_nat st) (api_error_message st errorText)
    \<and> sublist errorText (api_error_message st errorText)
    \<and> snd (getBrands (up_brands up) cfg) = Inl (JsError (api_error_message st errorText))
    \<and> snd (schedulePost (up_schedule up) cfg params) = Inl (JsError (api_error_message st errorText))
    \<and> snd (getScheduledPosts (up_scheduled up) cfg plat brandId) = Inl (JsError (api_error_message st errorText))
    \<and> snd (getAnalytics (up_analytics up) cfg plat aparams) = Inl (JsError (api_error_message st errorText))
    \<and> snd (getBestTime (up_best_time up) cfg brandId) = Inl (JsError (api_error_message st errorText))
    \<and> snd (deleteScheduledPost fetch_delete cfg postId) = Inl (JsError (api_error_message st errorText))
    \<and> (name \<in> set TOOLS \<longrightarrow>
         snd (call_tool up cfg plat name args) =
           \<lparr> content_text = JSON_stringify (JObj [(''success'', JBool False),
                                                   (''error'', JStr (api_error_message st errorText))]),
             isError = Some True \<rparr>)"
proof -
  note e = request_error [OF _ assms(1)]
  have b: "\<And>cfg. snd (getBrands (up_brands up) cfg) = Inl (JsError (api_error_message st errorText))"
    unfolding getBrands_def by (rule e [OF assms(2)])
  have s: "\<And>cfg params. snd (schedulePost (up_schedule up) cfg params) = Inl (JsError (api_error_message st errorText))"
    unfolding schedulePost_def by (rule map_result_error, rule e [OF assms(3)])
  have l: "\<And>cfg plat brandId. snd (getScheduledPosts (up_scheduled up) cfg plat brandId) = Inl (JsError (api_error_message st errorText))"
    unfolding getScheduledPosts_def Let_def by (rule map_result_error, rule e [OF assms(4)])
  have a: "\<And>cfg plat aparams. snd (getAnalytics (up_analytics up) cfg plat aparams) = Inl (JsError (api_error_message st errorText))"
    unfolding getAnalytics_def Let_def by (rule e [OF assms(5)])
  have t: "\<And>cfg brandId. snd (getBestTime (up_best_time up) cfg brandId) = Inl (JsError (api_error_message st errorText))"
    unfolding getBestTime_def by (rule map_result_error, rule e [OF assms(6)])
  have d: "snd (deleteScheduledPost fetch_delete cfg postId) = Inl (JsError (api_error_message st errorText))"
    unfolding deleteScheduledPost_def by (rule e [OF assms(7)])
  have c: "catch_result (JsError (api_error_message st errorText)) =
           \<lparr> content_text = JSON_stringify (JObj [(''success'', JBool False),
                                                   (''error'', JStr (api_error_message st errorText))]),
             isError = Some True \<rparr>"
    by (simp add: catch_result_def)
  have "name \<in> set TOOLS \<Longrightarrow> snd (call_tool up cfg plat name args) = catch_result (JsError (api_error_message st errorText))"
    unfolding call_tool_def TOOLS_def
    by (auto simp: after_call_error [OF b] after_call_error [OF s] after_call_error [OF l]
        after_call_error [OF a] after_call_error [OF t])
  moreover have "sublist (string_of_nat st) (api_error_message st errorText)"
    unfolding sublist_def api_error_message_def
    by (rule exI [of _ "''Metricool API error (''"], rule exI [of _ "''): '' @ errorText"]) simp
  moreover have "sublist errorText (api_error_message st errorText)"
    unfolding sublist_def api_error_message_def
    by (rule exI [of _ "''Metricool API error ('' @ string_of_nat st @ ''): ''"], rule exI [of _ "[]"]) simp
  ultimately show ?thesis
    using b s l a t d c by (simp add: api_error_message_def)
qed

theorem C6_upstream_error_witness:
  "\<not> (200 \<le> (403::nat) \<and> (403::nat) \<le> 299)
   \<and> answers (up_brands forbidden_upstream) 403 ''forbidden''
   \<and> answers (up_schedule forbidden_upstream) 403 ''forbidden''
   \<and> answers (up_scheduled forbidden_upstream) 403 ''forbidden''
   \<and> answers (up_analytics forbidden_upstream) 403 ''forbidden''
   \<and> answers (up_best_time forbidden_upstream) 403 ''forbidden''
   \<and> answers (forbidden :: http_request \<Rightarrow> unit fetch_result) 403 ''forbidden''
   \<and> ''metricool_get_analytics'' \<in> set TOOLS
   \<and> snd (getBrands (up_brands forbidden_upstream) cfg0) = Inl (JsError ''Metricool API error (403): forbidden'')
   \<and> snd (deleteScheduledPost forbidden cfg0 ''99'') = Inl (JsError ''Metricool API error (403): forbidden'')
   \<and> snd (call_tool forbidden_upstream cfg0 plat0 ''metricool_get_analytics'' args0) =
        \<lparr> content_text = Some ([CHR ''{'', CHR 0x22] @ ''success'' @ [CHR 0x22] @ '':false,''
                                 @ [CHR 0x22] @ ''error'' @ [CHR 0x22, CHR '':'', CHR 0x22]
                                 @ ''Metricool API error (403): forbidden'' @ [CHR 0x22, CHR ''}'']),
          isError = Some True \<rparr>"
proof -
  have h1: "\<not> (200 \<le> (403::nat) \<and> (403::nat) \<le> 299)" by simp
  have f: "\<And>g :: http_request \<Rightarrow> 'a fetch_result. g = forbidden \<Longrightarrow> answers g 403 ''forbidden''"
    by (simp add: answers_def forbidden_def)
  have h2: "answers (up_brands forbidden_upstream) 403 ''forbidden''"
    and h3: "answers (up_schedule forbidden_upstream) 403 ''forbidden''"
    and h4: "answers (up_scheduled forbidden_upstream) 403 ''forbidden''"
    and h5: "answers (up_analytics forbidden_upstream) 403 ''forbidden''"
    and h6: "answers (up_best_time forbidden_upstream) 403 ''forbidden''"
    and h7: "answers (forbidden :: http_request \<Rightarrow> unit fetch_result) 403 ''forbidden''"
    by (simp_all add: f forbidden_upstream_def)
  have n: "''metricool_get_analytics'' \<in> set TOOLS" by (simp add: TOOLS_def)
  have m: "api_error_message 403 ''forbidden'' = ''Metricool API error (403): forbidden''"
    by code_simp
  have j: "JSON_stringify (JObj [(''success'', JBool False), (''error'', JStr ''Metricool API error (403): forbidden'')])
      = Some ([CHR ''{'', CHR 0x22] @ ''success'' @ [CHR 0x22] @ '':false,''
                                 @ [CHR 0x22] @ ''error'' @ [CHR 0x22, CHR '':'', CHR 0x22]
                                 @ ''Metricool API error (403): forbidden'' @ [CHR 0x22, CHR ''}''])"
    by code_simp
  show ?thesis
    using h1 h2 h3 h4 h5 h6 h7 n
      C6_upstream_error [OF h1 h2 h3 h4 h5 h6 h7, of cfg0 params0 plat0 "''7''" aparams0 "''99''" "''metricool_get_analytics''" args0]
    by (simp add: m j)
qed

section \<open>Pending posts\<close>

lemma has_pending_iff: "has_pending p \<longleftrightarrow> (\<exists>prov\<in>set (sp_providers p). prov_status prov = ''PENDING'')"
  by (simp add: has_pending_def list_ex_iff)

text \<open>
  C5. For every list of scheduled posts the client returns, the get-scheduled-posts tool
  answers with exactly the posts that have at least one provider whose status is the
  string \<open>PENDING\<close> (compared as it is, so \<open>pending\<close> does not count), in their order
  and each in its short form; posts whose providers have only other statuses are left
  out; and the count field is the number of posts that remain.
\<close>

theorem C5_pending_posts:
  assumes "snd (getScheduledPosts (up_scheduled up) cfg plat (arg_brandId args)) = Inr posts"
  shows "snd (call_tool up cfg plat ''metricool_get_scheduled_posts'' args) =
           ok_result (JObj
             [(''success'', JBool True),
              (''count'', JNum (int (length
                 (filter (\<lambda>p. \<exists>prov\<in>set (sp_providers p). prov_status prov = ''PENDING'') posts)))),
              (''posts'', JArr (map pending_view
                 (filter (\<lambda>p. \<exists>prov\<in>set (sp_providers p). prov_status prov = ''PENDING'') posts)))])"
proof -
  have "pendingPosts posts = filter (\<lambda>p. \<exists>prov\<in>set (sp_providers p). prov_status prov = ''PENDING'') posts"
    unfolding pendingPosts_def by (rule filter_cong) (simp_all add: has_pending_iff)
  then show ?thesis
    by (simp add: call_tool_def after_call_ok [OF assms] scheduled_payload_def)
qed

theorem C5_pending_posts_witness:
  "snd (getScheduledPosts
          (up_scheduled (ok_upstream [] [post_with 1 [''PENDING''], post_with 2 [''PUBLISHED'', ''ERROR''],
                                         post_with 3 [''pending''], post_with 4 [''PUBLISHED'', ''PENDING'']] [] []))
          cfg0 plat0 (arg_brandId args0))
     = Inr [post_with 1 [''PENDING''], post_with 2 [''PUBLISHED'', ''ERROR''],
            post_with 3 [''pending''], post_with 4 [''PUBLISHED'', ''PENDING'']]
   \<and> snd (call_tool
            (ok_upstream [] [post_with 1 [''PENDING''], post_with 2 [''PUBLISHED'', ''ERROR''],
                             post_with 3 [''pending''], post_with 4 [''PUBLISHED'', ''PENDING'']] [] [])
            cfg0 plat0 ''metricool_get_scheduled_posts'' args0)
     = ok_result (JObj [(''success'', JBool True), (''count'', JNum 2),
                        (''posts'', JArr [pending_view (post_with 1 [''PENDING'']),
                                          pending_view (post_with 4 [''PUBLISHED'', ''PENDING''])])])"
proof -
  have h: "snd (getScheduledPosts
          (up_scheduled (ok_upstream [] [post_with 1 [''PENDING''], post_with 2 [''PUBLISHED'', ''ERROR''],
                                         post_with 3 [''pending''], post_with 4 [''PUBLISHED'', ''PENDING'']] [] []))
          cfg0 plat0 (arg_brandId args0))
     = Inr [post_with 1 [''PENDING''], post_with 2 [''PUBLISHED'', ''ERROR''],
            post_with 3 [''pending''], post_with 4 [''PUBLISHED'', ''PENDING'']]"
    by (simp add: getScheduledPosts_def request_def map_result_def ok_upstream_def response_ok_def Let_def)
  show ?thesis
    using h C5_pending_posts [OF h]
    by (simp add: post_with_def)
qed

section \<open>The weekday of a slot\<close>

lemma js_index_days:
  "js_index DAYS_OF_WEEK d = (if 0 \<le> d \<and> d \<le> 6 then Some (DAYS_OF_WEEK ! nat d) else None)"
  by (auto simp: js_index_def DAYS_OF_WEEK_def)

lemma ok_result_text: "content_text (ok_result (JObj kvs)) \<noteq> None"
  by (simp add: ok_result_def JSON_stringify2_def)

text \<open>
  C10. In the get-best-time tool the weekday lookup never fails: for a slot whose
  dayOfWeek is from 0 to 6 the \<open>day\<close> of the slot shown is the name from Sunday to
  Saturday, and for any other dayOfWeek it is \<open>undefined\<close>, so the \<open>day\<close> property is
  left out of the JSON text; the answer is still the success envelope, not flagged as an
  error.
\<close>

theorem C10_weekday_lookup:
  assumes "snd (getBestTime (up_best_time up) cfg (arg_brandId args)) = Inr slots"
  shows "map (js_index DAYS_OF_WEEK) [0, 1, 2, 3, 4, 5, 6] =
           map Some [''Sunday'', ''Monday'', ''Tuesday'', ''Wednesday'', ''Thursday'', ''Friday'', ''Saturday'']
    \<and> js_index DAYS_OF_WEEK d = (if 0 \<le> d \<and> d \<le> 6 then Some (DAYS_OF_WEEK ! nat d) else None)
    \<and> (0 \<le> dayOfWeek s \<and> dayOfWeek s \<le> 6 \<longrightarrow>
         slot_view s = JObj [(''day'', JStr (DAYS_OF_WEEK ! nat (dayOfWeek s))),
                             (''time'', JStr (formatHour (hour s))), (''score'', JNum (score s))])
    \<and> map (\<lambda>d. slot_view (slot d h c)) [0, 1, 2, 3, 4, 5, 6] =
         map (\<lambda>name. JObj [(''day'', JStr name), (''time'', JStr (formatHour h)), (''score'', JNum c)])
           [''Sunday'', ''Monday'', ''Tuesday'', ''Wednesday'', ''Thursday'', ''Friday'', ''Saturday'']
    \<and> (dayOfWeek s < 0 \<or> 6 < dayOfWeek s \<longrightarrow>
         slot_view s = JObj [(''day'', JUndefined), (''time'', JStr (formatHour (hour s))), (''score'', JNum (score s))]
         \<and> serialize gap ind (slot_view s) =
             serialize gap ind (JObj [(''time'', JStr (formatHour (hour s))), (''score'', JNum (score s))]))
    \<and> snd (call_tool up cfg plat ''metricool_get_best_time'' args) = ok_result (best_time_payload slots)
    \<and> best_time_payload slots =
         JObj [(''success'', JBool True),
               (''recommendation'',
                  JStr ''Based on your audience engagement patterns, here are the best times to post:''),
               (''topSlots'', JArr (map slot_view (topSlots slots)))]
    \<and> isError (snd (call_tool up cfg plat ''metricool_get_best_time'' args)) = None
    \<and> content_text (snd (call_tool up cfg plat ''metricool_get_best_time'' args)) \<noteq> None"
proof -
  have 1: "map (js_index DAYS_OF_WEEK) [0, 1, 2, 3, 4, 5, 6] =
           map Some [''Sunday'', ''Monday'', ''Tuesday'', ''Wednesday'', ''Thursday'', ''Friday'', ''Saturday'']"
    by (simp add: js_index_def DAYS_OF_WEEK_def)
  have 2: "dayOfWeek s < 0 \<or> 6 < dayOfWeek s \<Longrightarrow>
         slot_view s = JObj [(''day'', JUndefined), (''time'', JStr (formatHour (hour s))), (''score'', JNum (score s))]"
    by (auto simp: slot_view_def js_index_days opt_str_def)
  have 3: "serialize gap ind (JObj [(''day'', JUndefined), (''time'', JStr (formatHour (hour s))), (''score'', JNum (score s))])
         = serialize gap ind (JObj [(''time'', JStr (formatHour (hour s))), (''score'', JNum (score s))])"
    by simp
  have 4: "snd (call_tool up cfg plat ''metricool_get_best_time'' args) = ok_result (best_time_payload slots)"
    by (simp add: call_tool_def after_call_ok [OF assms])
  have 5: "isError (ok_result (best_time_payload slots)) = None"
    by (simp add: ok_result_def)
  have 6: "content_text (ok_result (best_time_payload slots)) \<noteq> None"
    unfolding best_time_payload_def by (rule ok_result_text)
  have 7: "0 \<le> dayOfWeek s \<and> dayOfWeek s \<le> 6 \<Longrightarrow>
         slot_view s = JObj [(''day'', JStr (DAYS_OF_WEEK ! nat (dayOfWeek s))),
                             (''time'', JStr (formatHour (hour s))), (''score'', JNum (score s))]"
    by (simp add: slot_view_def js_index_days opt_str_def)
  have 8: "map (\<lambda>d. slot_view (slot d h c)) [0, 1, 2, 3, 4, 5, 6] =
         map (\<lambda>name. JObj [(''day'', JStr name), (''time'', JStr (formatHour h)), (''score'', JNum c)])
           [''Sunday'', ''Monday'', ''Tuesday'', ''Wednesday'', ''Thursday'', ''Friday'', ''Saturday'']"
    by (simp add: slot_view_def slot_def js_index_def DAYS_OF_WEEK_def opt_str_def)
  have 9: "best_time_payload slots =
         JObj [(''success'', JBool True),
               (''recommendation'',
                  JStr ''Based on your audience engagement patterns, here are the best times to post:''),
               (''topSlots'', JArr (map slot_view (topSlots slots)))]"
    by (simp add: best_time_payload_def)
  have 23: "dayOfWeek s < 0 \<or> 6 < dayOfWeek s \<Longrightarrow>
         serialize gap ind (slot_view s) =
             serialize gap ind (JObj [(''time'', JStr (formatHour (hour s))), (''score'', JNum (score s))])"
    using 2 3 by simp
  from 1 js_index_days [of d] 7 8 2 23 4 9 5 6 show ?thesis
    unfolding 4 by (intro conjI impI) (assumption | simp)+
qed

theorem C10_weekday_lookup_witness:
  "snd (getBestTime (up_best_time (ok_upstream [] [] [] [slot 9 13 3, slot 0 0 2])) cfg0 (arg_brandId args0))
     = Inr [slot 9 13 3, slot 0 0 2]
   \<and> 6 < dayOfWeek (slot 9 13 3)
   \<and> 0 \<le> dayOfWeek (slot 0 0 2) \<and> dayOfWeek (slot 0 0 2) \<le> 6
   \<and> snd (call_tool (ok_upstream [] [] [] [slot 9 13 3, slot 0 0 2]) cfg0 plat0 ''metricool_get_best_time'' args0)
     = \<lparr> content_text = Some (
           ''{'' @ nl
           @ ''  '' @ dq ''success'' @ '': true,'' @ nl
           @ ''  '' @ dq ''recommendation'' @ '': ''
               @ dq ''Based on your audience engagement patterns, here are the best times to post:''
               @ '','' @ nl
           @ ''  '' @ dq ''topSlots'' @ '': ['' @ nl
           @ ''    {'' @ nl
           @ ''      '' @ dq ''time'' @ '': '' @ dq ''1:00 PM'' @ '','' @ nl
           @ ''      '' @ dq ''score'' @ '': 3'' @ nl
           @ ''    },'' @ nl
           @ ''    {'' @ nl
           @ ''      '' @ dq ''day'' @ '': '' @ dq ''Sunday'' @ '','' @ nl
           @ ''      '' @ dq ''time'' @ '': '' @ dq ''12:00 AM'' @ '','' @ nl
           @ ''      '' @ dq ''score'' @ '': 2'' @ nl
           @ ''    }'' @ nl
           @ ''  ]'' @ nl
           @ ''}''),
         isError = None \<rparr>"
proof -
  have h: "snd (getBestTime (up_best_time (ok_upstream [] [] [] [slot 9 13 3, slot 0 0 2])) cfg0 (arg_brandId args0))
     = Inr [slot 9 13 3, slot 0 0 2]"
    by (simp add: getBestTime_def request_def map_result_def ok_upstream_def response_ok_def Let_def)
  have d: "6 < dayOfWeek (slot 9 13 3)" "0 \<le> dayOfWeek (slot 0 0 2)" "dayOfWeek (slot 0 0 2) \<le> 6"
    by (simp_all add: slot_def)
  have e: "ok_result (best_time_payload [slot 9 13 3, slot 0 0 2])
     = \<lparr> content_text = Some (
           ''{'' @ nl
           @ ''  '' @ dq ''success'' @ '': true,'' @ nl
           @ ''  '' @ dq ''recommendation'' @ '': ''
               @ dq ''Based on your audience engagement patterns, here are the best times to post:''
               @ '','' @ nl
           @ ''  '' @ dq ''topSlots'' @ '': ['' @ nl
           @ ''    {'' @ nl
           @ ''      '' @ dq ''time'' @ '': '' @ dq ''1:00 PM'' @ '','' @ nl
           @ ''      '' @ dq ''score'' @ '': 3'' @ nl
           @ ''    },'' @ nl
           @ ''    {'' @ nl
           @ ''      '' @ dq ''day'' @ '': '' @ dq ''Sunday'' @ '','' @ nl
           @ ''      '' @ dq ''time'' @ '': '' @ dq ''12:00 AM'' @ '','' @ nl
           @ ''      '' @ dq ''score'' @ '': 2'' @ nl
           @ ''    }'' @ nl
           @ ''  ]'' @ nl
           @ ''}''),
         isError = None \<rparr>"
    by code_simp
  from C10_weekday_lookup [OF h, of 9 "slot 9 13 3" 0 2 "[]" "[]" plat0]
  have "snd (call_tool (ok_upstream [] [] [] [slot 9 13 3, slot 0 0 2]) cfg0 plat0 ''metricool_get_best_time'' args0)
      = ok_result (best_time_payload [slot 9 13 3, slot 0 0 2])"
    by blast
  with h d e show ?thesis by simp
qed

section \<open>The fetched arrays stay as they are\<close>

lemma take_alloc: "take (length h) (fst (alloc h xs)) = h"
  by (simp add: alloc_def)

text \<open>
  C9. No tool changes what it got from the client. With the arrays in a store, where
  \<open>sort\<close> rearranges its receiver in place: after the array work of each of the four
  tools that receive an array, every array that was in the store before is as it was
  (the old store is the beginning of the new one), because \<open>sort\<close> is called on the
  copy \<open>[...xs]\<close> and \<open>slice\<close>, \<open>filter\<close> and \<open>map\<close> build new arrays and new objects;
  and the answer computed is the one of the dispatcher.
\<close>

theorem C9_fetched_arrays_unchanged:
  assumes "brands < length hb" and "scheduled < length hs" and "records < length ha" and "slots < length ht"
  shows "take (length hb) (fst (brands_in_store hb brands)) = hb
    \<and> snd (brands_in_store hb brands) = brands_payload (hb ! brands)
    \<and> take (length hs) (fst (scheduled_in_store hs scheduled)) = hs
    \<and> snd (scheduled_in_store hs scheduled) = scheduled_payload (hs ! scheduled)
    \<and> take (length ha) (fst (analytics_in_store ha records)) = ha
    \<and> snd (analytics_in_store ha records) = analytics_payload (ha ! records)
    \<and> take (length ht) (fst (best_time_in_store ht slots)) = ht
    \<and> snd (best_time_in_store ht slots) = best_time_payload (ht ! slots)"
proof -
  have b: "brands_in_store hb brands = (hb, brands_payload (hb ! brands))"
    by (simp add: brands_in_store_def brands_payload_def)
  have s: "scheduled_in_store hs scheduled = (hs @ [pendingPosts (hs ! scheduled)], scheduled_payload (hs ! scheduled))"
    by (simp add: scheduled_in_store_def filter_new_def alloc_def scheduled_payload_def pendingPosts_def)
  have a: "analytics_in_store ha records =
             (ha @ [js_sort by_engagement_desc (ha ! records)] @ [topPosts (ha ! records)],
              analytics_payload (ha ! records))"
    using assms(3)
    by (simp add: analytics_in_store_def spread_copy_def sort_in_place_def slice_new_def alloc_def
        analytics_payload_def topPosts_def totals_def nth_append)
  have t: "best_time_in_store ht slots =
             (ht @ [sortedSlots (ht ! slots)] @ [topSlots (ht ! slots)], best_time_payload (ht ! slots))"
    using assms(4)
    by (simp add: best_time_in_store_def spread_copy_def sort_in_place_def slice_new_def alloc_def
        best_time_payload_def topSlots_def sortedSlots_def nth_append)
  show ?thesis
    unfolding b s a t by simp
qed

theorem C9_fetched_arrays_unchanged_witness:
  "(0::nat) < length [[empty_handle_brand]]
   \<and> (0::nat) < length [[post_with 1 [''PENDING''], post_with 2 [''ERROR'']]]
   \<and> (0::nat) < length [[post_50_5, post_100_10]]
   \<and> (0::nat) < length [[slot 0 9 1, slot 1 9 2]]
   \<and> fst (analytics_in_store [[post_50_5, post_100_10]] 0)
       = [[post_50_5, post_100_10], [post_100_10, post_50_5], [post_100_10, post_50_5]]
   \<and> fst (best_time_in_store [[slot 0 9 1, slot 1 9 2]] 0)
       = [[slot 0 9 1, slot 1 9 2], [slot 1 9 2, slot 0 9 1], [slot 1 9 2, slot 0 9 1]]
   \<and> snd (best_time_in_store [[slot 0 9 1, slot 1 9 2]] 0) = best_time_payload [slot 0 9 1, slot 1 9 2]"
proof -
  have e1: "fst (analytics_in_store [[post_50_5, post_100_10]] 0)
       = [[post_50_5, post_100_10], [post_100_10, post_50_5], [post_100_10, post_50_5]]"
    by (simp add: analytics_in_store_def spread_copy_def sort_in_place_def slice_new_def alloc_def
        js_sort_def slice0_def by_engagement_desc_def engagement_value_def js_or_def js_or_lit_def
        truthy_opt_def truthy_num_def post_50_5_def post_100_10_def empty_post_def)
  have e2: "fst (best_time_in_store [[slot 0 9 1, slot 1 9 2]] 0)
       = [[slot 0 9 1, slot 1 9 2], [slot 1 9 2, slot 0 9 1], [slot 1 9 2, slot 0 9 1]]"
    by (simp add: best_time_in_store_def spread_copy_def sort_in_place_def slice_new_def alloc_def
        js_sort_def slice0_def by_score_desc_def slot_def)
  show ?thesis
    using C9_fetched_arrays_unchanged [of 0 "[[empty_handle_brand]]" 0
        "[[post_with 1 [''PENDING''], post_with 2 [''ERROR'']]]" 0 "[[post_50_5, post_100_10]]" 0
        "[[slot 0 9 1, slot 1 9 2]]"] e1 e2
    by simp
qed

text \<open>Called on the fetched array itself, \<open>sort\<close> would change it.\<close>

lemma sort_without_copy_changes:
  "fst (sort_in_place by_score_desc [[slot 0 9 1, slot 1 9 2]] 0) = [[slot 1 9 2, slot 0 9 1]]"
  by (simp add: sort_in_place_def js_sort_def by_score_desc_def slot_def)

text \<open>Two bodies as they are sent: Twitter with an image, and the default network.\<close>

lemma schedule_body_examples:
  "JSON_stringify (JObj (schedulePost_body params0)) =
     Some (''{'' @ dq ''text'' @ '':'' @ dq ''hello'' @ '',''
           @ dq ''publicationDate'' @ '':{'' @ dq ''dateTime'' @ '':'' @ dq ''2024-01-15T10:00:00'' @ '',''
               @ dq ''timezone'' @ '':'' @ dq ''America/Costa_Rica'' @ ''},''
           @ dq ''providers'' @ '':[{'' @ dq ''network'' @ '':'' @ dq ''twitter'' @ ''}],''
           @ dq ''autoPublish'' @ '':true,''
           @ dq ''media'' @ '':['' @ dq ''https://x.test/a.png'' @ '']}'')"
  "JSON_stringify (JObj (schedulePost_body (params0 \<lparr> p_network := None, p_imageUrl := None \<rparr>))) =
     Some (''{'' @ dq ''text'' @ '':'' @ dq ''hello'' @ '',''
           @ dq ''publicationDate'' @ '':{'' @ dq ''dateTime'' @ '':'' @ dq ''2024-01-15T10:00:00'' @ '',''
               @ dq ''timezone'' @ '':'' @ dq ''America/Costa_Rica'' @ ''},''
           @ dq ''providers'' @ '':[{'' @ dq ''network'' @ '':'' @ dq ''linkedin'' @ ''}],''
           @ dq ''autoPublish'' @ '':true,''
           @ dq ''linkedinData'' @ '':{'' @ dq ''previewIncluded'' @ '':true,''
               @ dq ''type'' @ '':'' @ dq ''POST'' @ ''}}'')"
  by code_simp+

section \<open>The top five\<close>


text \<open>Eight slots, scores 5 7 5 7 1 7 5 5: the three 7s, then the first two 5s, in input order.\<close>

lemma top_slots_example:
  "map dayOfWeek
     (topSlots [slot 0 9 5, slot 1 9 7, slot 2 9 5, slot 3 9 7, slot 4 9 1, slot 5 9 7, slot 6 9 5, slot 7 9 5])
   = [1, 3, 5, 0, 2]"
  by (simp add: topSlots_def sortedSlots_def slice0_def js_sort_def by_score_desc_def slot_def)

end
